theory Spec2Isabelle
  imports Main "HOL-Library.Word"
begin

unbundle bit_operations_syntax

section \<open>Protocol constants (printer.go, lines 10-36)\<close>

type_synonym byte = "8 word"

definition Preamble1 :: byte where "Preamble1 = 0x22"
definition Preamble2 :: byte where "Preamble2 = 0x21"
definition Footer :: byte where "Footer = 0xFF"

definition CmdGetStatus :: byte where "CmdGetStatus = 0xA1"
definition CmdSetIntensity :: byte where "CmdSetIntensity = 0xA2"
definition CmdPrintRequest :: byte where "CmdPrintRequest = 0xA9"
definition CmdFlushData :: byte where "CmdFlushData = 0xAD"
definition CmdPrintComplete :: byte where "CmdPrintComplete = 0xAA"

definition ImageWidthBytes :: nat where "ImageWidthBytes = 48"
definition MinImageBytes :: nat where "MinImageBytes = 4320"

section \<open>Checksum (calculateCRC8, lines 202-221)\<close>

text \<open>
  The inner loop \<^verbatim>\<open>for i := 0; i < 8; i++\<close> runs its body a fixed number of times;
  \<open>crc_rounds n\<close> runs it \<open>n\<close> times on the register. The register is a Go \<^verbatim>\<open>byte\<close>,
  so the left shift drops the bit shifted out.
\<close>

fun crc_rounds :: "nat \<Rightarrow> byte \<Rightarrow> byte" where
  "crc_rounds 0 crc = crc"
| "crc_rounds (Suc n) crc =
     crc_rounds n (if crc AND 0x80 \<noteq> 0 then push_bit 1 crc XOR 0x07 else push_bit 1 crc)"

definition calculateCRC8 :: "byte list \<Rightarrow> byte" where
  "calculateCRC8 data = foldl (\<lambda>crc b. crc_rounds 8 (crc XOR b)) 0x00 data"

text \<open>
  The checksum as the specification words it, on natural numbers with the masking to
  eight bits written out: XOR the byte into the register, then eight rounds of
  ``if the high bit is set, shift left by one and XOR 0x07, else shift left by one''.
\<close>

definition spec_round :: "nat \<Rightarrow> nat" where
  "spec_round r = (if 128 \<le> r mod 256 then ((2 * r) XOR 7) mod 256 else (2 * r) mod 256)"

definition spec_checksum :: "nat list \<Rightarrow> nat" where
  "spec_checksum payload = foldl (\<lambda>r b. (spec_round ^^ 8) (r XOR b)) 0 payload"


section \<open>Session state\<close>

text \<open>
  \<open>PrinterStatus\<close> and \<open>CatPrinter\<close> are the structs of lines 38-57. The Bluetooth
  handles are opaque library values: the model keeps, for the device and the three
  characteristics, whether each has been bound; the adapter is set once at construction
  and is left out. \<open>lastStatus\<close> is a pointer to a struct that only the session's
  methods write, so it is kept as a value.
  Two fields are added to observe effects: \<open>wire\<close> records every call made on the
  transport in order (a write is recorded when it is attempted, whether or not the library
  reports an error for it), and \<open>logged\<close> records every error handed to
  \<^verbatim>\<open>ifErrNotNil\<close>, which prints it and carries on. Other console output is not modelled.
\<close>

datatype error =
    NotConnected
  | StatusWriteFailed
  | StatusTimeout
  | FrameTooShort nat
  | BadPreamble byte byte
  | UnexpectedResponse byte
  | LengthMismatch nat int
  | ShortStatusPayload nat
  | PrinterError int
  | PrinterBusy
  | PrintWriteFailed
  | PrintRejected byte
  | ShortPrintResponse nat
  | PrintRequestTimeout
  | FlushWriteFailed
  | UnexpectedCompletionResponse "byte list"
  | PrintCompletionTimeout
  | OutOfRange int
  | IntensityWriteFailed
  | ChunkWriteFailed nat
  | AdapterEnableFailed
  | ScanFailed
  | PrinterNotFound
  | ConnectFailed
  | NilDevicePanic
  | DiscoverServicesFailed
  | MainServiceNotFound
  | DiscoverCharacteristicsFailed
  | CharacteristicsMissing
  | EnableNotificationsFailed
  | DisconnectFailed

datatype event =
    Scan
  | DeviceConnect
  | DiscoverServices
  | DiscoverCharacteristics
  | EnableNotifications
  | DeviceDisconnect
  | ControlWrite "byte list"
  | DataWrite "byte list"

record PrinterStatus =
  Connected :: bool
  Battery :: int
  Temperature :: int
  Status :: int
  ErrorFlag :: int
  ErrorCode :: int
  StatusString :: string

record CatPrinter =
  device :: bool
  controlChar :: bool
  notifyChar :: bool
  dataChar :: bool
  connected :: bool
  notifications :: "byte list list"
  lastStatus :: PrinterStatus
  wire :: "event list"
  logged :: "error list"

definition ifErrNotNil :: "CatPrinter \<Rightarrow> error option \<Rightarrow> CatPrinter" where
  "ifErrNotNil p err = (case err of None \<Rightarrow> p | Some e \<Rightarrow> p\<lparr>logged := logged p @ [e]\<rparr>)"

definition NewCatPrinter :: "bool \<Rightarrow> CatPrinter" where
  "NewCatPrinter enable_fails =
     ifErrNotNil
       \<lparr>device = False, controlChar = False, notifyChar = False, dataChar = False,
        connected = False, notifications = [],
        lastStatus = \<lparr>Connected = False, Battery = 0, Temperature = 0, Status = 0,
                      ErrorFlag = 0, ErrorCode = 0, StatusString = ''Not connected''\<rparr>,
        wire = [], logged = []\<rparr>
       (if enable_fails then Some AdapterEnableFailed else None)"

section \<open>The notification mailbox\<close>

text \<open>
  \<open>notifications\<close> is the buffered channel of capacity 10 (line 72), oldest first.
  \<open>deliver\<close> is the callback of lines 164-172: a non-blocking send that drops the
  buffer when the channel is full. \<open>drain\<close> is the \<^verbatim>\<open>select\<close> with a
  \<^verbatim>\<open>default\<close> branch of lines 231-236 and 360-364: it takes one buffered
  notification when there is one. \<open>recv\<close> is the \<^verbatim>\<open>select\<close> against
  \<^verbatim>\<open>time.After\<close>: a buffered notification is received at once; with an empty
  channel the receive blocks, and \<open>arrival\<close> is what the callback delivers before
  the timeout (\<open>None\<close> when nothing does).
\<close>

definition deliver :: "CatPrinter \<Rightarrow> byte list \<Rightarrow> CatPrinter" where
  "deliver p buf =
     (if length (notifications p) < 10 then p\<lparr>notifications := notifications p @ [buf]\<rparr> else p)"

definition drain :: "CatPrinter \<Rightarrow> CatPrinter" where
  "drain p = (case notifications p of [] \<Rightarrow> p | b # bs \<Rightarrow> p\<lparr>notifications := bs\<rparr>)"

definition recv :: "CatPrinter \<Rightarrow> byte list option \<Rightarrow> byte list option \<times> CatPrinter" where
  "recv p arrival =
     (case notifications p of
        b # bs \<Rightarrow> (Some b, p\<lparr>notifications := bs\<rparr>)
      | [] \<Rightarrow> (arrival, p))"

definition writeControl :: "CatPrinter \<Rightarrow> byte list \<Rightarrow> CatPrinter" where
  "writeControl p packet = p\<lparr>wire := wire p @ [ControlWrite packet]\<rparr>"

definition writeData :: "CatPrinter \<Rightarrow> byte list \<Rightarrow> CatPrinter" where
  "writeData p chunk = p\<lparr>wire := wire p @ [DataWrite chunk]\<rparr>"

text \<open>
  What the transport does during one command exchange: whether the control write reports
  an error, and what arrives while the receive is blocked.
\<close>

record exchange =
  write_err :: bool
  arrival :: "byte list option"

section \<open>Status query (UpdateStatus and parseStatusResponse, lines 223-329)\<close>

text \<open>\<^verbatim>\<open>%d\<close> of \<^verbatim>\<open>fmt.Sprintf\<close>: a decimal numeral, with a minus sign when negative.\<close>

fun digits10 :: "nat \<Rightarrow> string" where
  "digits10 n =
     (if n < 10 then [char_of (48 + n)] else digits10 (n div 10) @ [char_of (48 + n mod 10)])"

declare digits10.simps [simp del]

definition fmt_d :: "int \<Rightarrow> string" where
  "fmt_d i = (if i < 0 then CHR ''-'' # digits10 (nat (- i)) else digits10 (nat i))"

text \<open>The degree sign of the format string is the two bytes C2 B0 of its UTF-8 encoding.\<close>

definition statusSummary :: "PrinterStatus \<Rightarrow> string" where
  "statusSummary s =
     ''Battery: '' @ fmt_d (Battery s) @ ''%, Temp: '' @ fmt_d (Temperature s)
       @ [CHR 0xC2, CHR 0xB0] @ ''C, Status: '' @ fmt_d (Status s)
       @ '', Error: '' @ fmt_d (ErrorFlag s)"

definition parseStatusResponse :: "CatPrinter \<Rightarrow> byte list \<Rightarrow> error option \<times> CatPrinter" where
  "parseStatusResponse p buf =
     (if length buf < 9 then (Some (FrameTooShort (length buf)), p)
      else if buf ! 0 \<noteq> Preamble1 \<or> buf ! 1 \<noteq> Preamble2
        then (Some (BadPreamble (buf ! 0) (buf ! 1)), p)
      else if buf ! 2 \<noteq> CmdGetStatus then (Some (UnexpectedResponse (buf ! 2)), p)
      else
        let payloadLength = uint (buf ! 4) OR push_bit 8 (uint (buf ! 5)) in
        if int (length buf) < 6 + payloadLength
          then (Some (LengthMismatch (length buf) (6 + payloadLength)), p)
        else if 13 \<le> length buf then
          let s0 = (lastStatus p)\<lparr>Connected := True\<rparr>;
              s1 = (if 9 < length buf then s0\<lparr>Battery := uint (buf ! 9)\<rparr> else s0);
              s2 = (if 10 < length buf then s1\<lparr>Temperature := uint (buf ! 10)\<rparr> else s1);
              s3 = (if 6 < length buf then s2\<lparr>Status := uint (buf ! 6)\<rparr> else s2);
              s4 = (if 12 < length buf then
                      let s' = s3\<lparr>ErrorFlag := uint (buf ! 12)\<rparr> in
                      if ErrorFlag s' \<noteq> 0 \<and> 13 < length buf
                        then s'\<lparr>ErrorCode := uint (buf ! 13)\<rparr> else s'
                    else s3);
              s5 = s4\<lparr>StatusString := statusSummary s4\<rparr>
          in (None, p\<lparr>lastStatus := s5\<rparr>)
        else (Some (ShortStatusPayload (length buf)), p))"

definition UpdateStatus :: "CatPrinter \<Rightarrow> exchange \<Rightarrow> error option \<times> CatPrinter" where
  "UpdateStatus p x =
     (if \<not> connected p then (Some NotConnected, p)
      else
        let p1 = drain p;
            payload = [0x00];
            crc = calculateCRC8 payload;
            packet = [Preamble1, Preamble2, CmdGetStatus, 0x00, 0x01, 0x00, 0x00, crc, Footer];
            p2 = writeControl p1 packet
        in if write_err x then (Some StatusWriteFailed, p2)
           else (case recv p2 (arrival x) of
                   (Some buf, p3) \<Rightarrow> parseStatusResponse p3 buf
                 | (None, p3) \<Rightarrow> (Some StatusTimeout, p3)))"

section \<open>Intensity (setIntensity, lines 527-563)\<close>

definition setIntensity :: "CatPrinter \<Rightarrow> int \<Rightarrow> bool \<Rightarrow> error option \<times> CatPrinter" where
  "setIntensity p intensity wr_err =
     (if \<not> connected p then (Some NotConnected, p)
      else if intensity < 0 \<or> 255 < intensity then (Some (OutOfRange intensity), p)
      else
        let payload = [word_of_int intensity];
            crc = calculateCRC8 payload;
            packet = [Preamble1, Preamble2, CmdSetIntensity, 0x00, 0x01, 0x00,
                      word_of_int intensity, crc, Footer];
            p1 = writeControl p packet
        in if wr_err then (Some IntensityWriteFailed, p1) else (None, p1))"

section \<open>Flush and completion (flushData, lines 484-525)\<close>

definition flushData :: "CatPrinter \<Rightarrow> exchange \<Rightarrow> error option \<times> CatPrinter" where
  "flushData p x =
     (if \<not> connected p then (Some NotConnected, p)
      else
        let payload = [0x00];
            crc = calculateCRC8 payload;
            packet = [Preamble1, Preamble2, CmdFlushData, 0x00, 0x01, 0x00, 0x00, crc, Footer];
            p1 = writeControl p packet
        in if write_err x then (Some FlushWriteFailed, p1)
           else (case recv p1 (arrival x) of
                   (Some buf, p2) \<Rightarrow>
                     if 3 \<le> length buf \<and> buf ! 2 = CmdPrintComplete then (None, p2)
                     else (Some (UnexpectedCompletionResponse buf), p2)
                 | (None, p2) \<Rightarrow> (Some PrintCompletionTimeout, p2)))"

section \<open>Image transfer (transferImageData, lines 443-482)\<close>

text \<open>
  The chunk loop of lines 457-475, with its index \<open>i\<close>. \<open>chunk_err k\<close> tells whether
  the library reports an error for the write of chunk \<open>k\<close>; the error goes to
  \<^verbatim>\<open>ifErrNotNil\<close>. The slice \<^verbatim>\<open>paddedData[i:end]\<close> is
  \<open>take (end - i) (drop i paddedData)\<close>.
\<close>

function sendChunks :: "nat \<Rightarrow> byte list \<Rightarrow> (nat \<Rightarrow> bool) \<Rightarrow> CatPrinter \<Rightarrow> CatPrinter" where
  "sendChunks i paddedData chunk_err p =
     (if i < length paddedData then
        let end0 = i + 20;
            end1 = (if length paddedData < end0 then length paddedData else end0);
            chunk = take (end1 - i) (drop i paddedData);
            p1 = writeData p chunk;
            p2 = ifErrNotNil p1
                   (if chunk_err (i div 20) then Some (ChunkWriteFailed (i div 20)) else None)
        in sendChunks (i + 20) paddedData chunk_err p2
      else p)"
  by pat_completeness auto
termination
  by (relation "measure (\<lambda>(i, paddedData, chunk_err, p). length paddedData - i)") auto

declare sendChunks.simps [simp del]

text \<open>
  The transport during a transfer: the outcome of each chunk write, the notifications the
  callback delivers while the chunks are being written (the loop sleeps 10 ms after each
  chunk and never reads the mailbox), and the flush exchange.
\<close>

record transfer_env =
  chunk_err :: "nat \<Rightarrow> bool"
  during_transfer :: "byte list list"
  flush_x :: exchange

definition transferImageData ::
  "CatPrinter \<Rightarrow> byte list \<Rightarrow> transfer_env \<Rightarrow> error option \<times> CatPrinter" where
  "transferImageData p imageData env =
     (let paddedData =
            (if length imageData < MinImageBytes
               then imageData @ replicate (MinImageBytes - length imageData) 0x00
               else imageData);
          p1 = sendChunks 0 paddedData (chunk_err env) p;
          p2 = foldl deliver p1 (during_transfer env);
          (err, p3) = flushData p2 (flush_x env);
          p4 = ifErrNotNil p3 err
      in (None, p4))"

section \<open>Printing (TestPrintCard, lines 331-441)\<close>

text \<open>
  The test pattern of lines 338-350: ten rows of 48 bytes, byte \<open>byteIdx\<close> of row
  \<open>line\<close> is 0xFF when both have the same parity and 0x00 otherwise.
\<close>

definition testImage :: "byte list" where
  "testImage =
     concat (map (\<lambda>line. map (\<lambda>byteIdx. if byteIdx mod 2 = line mod 2 then 0xFF else 0x00)
                           [0..<ImageWidthBytes])
                 [0..<10])"

record print_env =
  status_x :: exchange
  intensity_err :: bool
  print_x :: exchange
  transfer :: transfer_env

definition TestPrintCard :: "CatPrinter \<Rightarrow> print_env \<Rightarrow> error option \<times> CatPrinter" where
  "TestPrintCard p env =
     (let lineCount = (10 :: int);
          imageData = testImage;
          (ignored1, p1) = UpdateStatus p (status_x env);
          (ignored2, p2) = setIntensity p1 93 (intensity_err env);
          p3 = drain p2
      in if ErrorFlag (lastStatus p3) \<noteq> 0
           then (Some (PrinterError (ErrorFlag (lastStatus p3))), p3)
         else if Status (lastStatus p3) \<noteq> 0 then (Some PrinterBusy, p3)
         else
           let lineCountLE = [word_of_int (lineCount AND 0xFF),
                              word_of_int (drop_bit 8 lineCount AND 0xFF)];
               payload = [lineCountLE ! 0, lineCountLE ! 1, 0x30, 0x00];
               crc = calculateCRC8 payload;
               packet = [Preamble1, Preamble2, CmdPrintRequest, 0x00, 0x04, 0x00,
                         lineCountLE ! 0, lineCountLE ! 1, 0x30, 0x00, crc, Footer];
               p4 = writeControl p3 packet
           in if write_err (print_x env) then (Some PrintWriteFailed, p4)
              else (case recv p4 (arrival (print_x env)) of
                      (Some buf, p5) \<Rightarrow>
                        if 7 \<le> length buf then
                          if buf ! 2 = CmdPrintRequest then
                            if buf ! 6 = 0x00 then transferImageData p5 imageData (transfer env)
                            else (Some (PrintRejected (buf ! 6)), p5)
                          else (Some (UnexpectedResponse (buf ! 2)), p5)
                        else (Some (ShortPrintResponse (length buf)), p5)
                    | (None, p5) \<Rightarrow> (Some PrintRequestTimeout, p5)))"

section \<open>Connection lifecycle (Connect and Disconnect, lines 80-199)\<close>

text \<open>
  The calls into the Bluetooth library are opaque; what they yield is an input. The scan
  either sees a device named MXW01 within the ten seconds or not; a failed
  \<^verbatim>\<open>adapter.Connect\<close> is only logged and the nil device is then dereferenced;
  the service and characteristic searches either find what they look for or leave the
  zero value.
\<close>

record connect_env =
  scan_err :: bool
  scan_found :: bool
  connect_err :: bool
  services_err :: bool
  main_service :: bool
  chars_err :: bool
  control_found :: bool
  notify_found :: bool
  data_found :: bool
  enable_err :: bool
  first_status :: exchange

definition Connect :: "CatPrinter \<Rightarrow> connect_env \<Rightarrow> error option \<times> CatPrinter" where
  "Connect p env =
     (if connected p then (None, p)
      else
        let p1 = ifErrNotNil (p\<lparr>wire := wire p @ [Scan]\<rparr>)
                   (if scan_err env then Some ScanFailed else None)
        in if \<not> scan_found env then (Some PrinterNotFound, p1)
        else
          let p2 = ifErrNotNil (p1\<lparr>wire := wire p1 @ [DeviceConnect]\<rparr>)
                     (if connect_err env then Some ConnectFailed else None)
          in if connect_err env then (Some NilDevicePanic, p2)
          else
            let p3 = p2\<lparr>device := True\<rparr>;
                p4 = ifErrNotNil (p3\<lparr>wire := wire p3 @ [DiscoverServices]\<rparr>)
                       (if services_err env then Some DiscoverServicesFailed else None)
            in if \<not> main_service env then (Some MainServiceNotFound, p4)
            else
              let p5 = ifErrNotNil (p4\<lparr>wire := wire p4 @ [DiscoverCharacteristics]\<rparr>)
                         (if chars_err env then Some DiscoverCharacteristicsFailed else None);
                  p6 = p5\<lparr>controlChar := controlChar p5 \<or> control_found env,
                           notifyChar := notifyChar p5 \<or> notify_found env,
                           dataChar := dataChar p5 \<or> data_found env\<rparr>
              in if \<not> controlChar p6 \<or> \<not> notifyChar p6 \<or> \<not> dataChar p6
                   then (Some CharacteristicsMissing, p6)
              else
                let p7 = p6\<lparr>wire := wire p6 @ [EnableNotifications]\<rparr>
                in if enable_err env then (Some EnableNotificationsFailed, p7)
                else
                  let p8 = p7\<lparr>connected := True\<rparr>;
                      (ignored, p9) = UpdateStatus p8 (first_status env)
                  in (None, p9))"

definition Disconnect :: "CatPrinter \<Rightarrow> bool \<Rightarrow> error option \<times> CatPrinter" where
  "Disconnect p disconnect_err =
     (if \<not> connected p then (None, p)
      else
        let p1 = p\<lparr>wire := wire p @ [DeviceDisconnect]\<rparr>;
            p2 = p1\<lparr>connected := False\<rparr>;
            p3 = p2\<lparr>lastStatus := (lastStatus p2)\<lparr>Connected := False\<rparr>\<rparr>;
            p4 = p3\<lparr>lastStatus := (lastStatus p3)\<lparr>StatusString := ''Disconnected''\<rparr>\<rparr>
        in (if disconnect_err then Some DisconnectFailed else None, p4))"

section \<open>Auxiliary notions used in the statements\<close>

text \<open>The number of iterations the chunk loop makes on \<open>n\<close> bytes from index \<open>i\<close>.\<close>

definition chunk_count :: "nat \<Rightarrow> nat \<Rightarrow> nat" where
  "chunk_count n i = (n - i + 19) div 20"

text \<open>A transport on which every write succeeds and nothing arrives.\<close>

definition silent :: exchange where
  "silent = \<lparr>write_err = False, arrival = None\<rparr>"

definition silent_transfer :: transfer_env where
  "silent_transfer = \<lparr>chunk_err = (\<lambda>k. False), during_transfer = [], flush_x = silent\<rparr>"

definition silent_print :: print_env where
  "silent_print =
     \<lparr>status_x = silent, intensity_err = False, print_x = silent, transfer = silent_transfer\<rparr>"

text \<open>
  Notifications used in the examples. The status replies are 14 bytes long: battery 80 at
  offset 9, temperature 25 at offset 10; \<open>status_reply_ok\<close> has state 0 and error flag 0,
  \<open>status_reply_err\<close> has error flag 1 and the byte 7 at offset 13, \<open>status_reply_busy\<close>
  has state 1.
\<close>

definition status_reply_ok :: "byte list" where
  "status_reply_ok =
     [0x22, 0x21, 0xA1, 0x00, 0x06, 0x00, 0x00, 0x00, 0x00, 0x50, 0x19, 0x00, 0x00, 0xFF]"

definition status_reply_err :: "byte list" where
  "status_reply_err =
     [0x22, 0x21, 0xA1, 0x00, 0x08, 0x00, 0x00, 0x00, 0x00, 0x50, 0x19, 0x00, 0x01, 0x07]"

definition status_reply_busy :: "byte list" where
  "status_reply_busy =
     [0x22, 0x21, 0xA1, 0x00, 0x06, 0x00, 0x01, 0x00, 0x00, 0x50, 0x19, 0x00, 0x00, 0xFF]"

definition status_reply_short :: "byte list" where
  "status_reply_short = [0x22, 0x21, 0xA1, 0x00, 0x01, 0x00, 0x00, 0x00, 0xFF]"

definition print_accepted :: "byte list" where
  "print_accepted = [0x22, 0x21, 0xA9, 0x00, 0x01, 0x00, 0x00, 0x00, 0xFF]"

definition print_complete :: "byte list" where
  "print_complete = [0x22, 0x21, 0xAA, 0x00, 0x01, 0x00, 0x00, 0x00, 0xFF]"

definition answering :: "byte list \<Rightarrow> exchange" where
  "answering buf = \<lparr>write_err = False, arrival = Some buf\<rparr>"

text \<open>
  A session connected by a handshake in which every step succeeds and the first status
  query is answered by \<open>status_reply_ok\<close>.
\<close>

definition good_connect :: connect_env where
  "good_connect =
     \<lparr>scan_err = False, scan_found = True, connect_err = False, services_err = False,
      main_service = True, chars_err = False, control_found = True, notify_found = True,
      data_found = True, enable_err = False, first_status = answering status_reply_ok\<rparr>"

definition connected_session :: CatPrinter where
  "connected_session = snd (Connect (NewCatPrinter False) good_connect)"

text \<open>The connected session after a status reply that reported error flag 1 and code 7.\<close>

definition stale_error_session :: CatPrinter where
  "stale_error_session = snd (UpdateStatus connected_session (answering status_reply_err))"

text \<open>
  The session as \<open>TestPrintCard\<close> finds it at its error and busy checks (line 366): after
  the status refresh, the intensity command and the drain of one notification.
\<close>

definition refreshed :: "CatPrinter \<Rightarrow> print_env \<Rightarrow> CatPrinter" where
  "refreshed p env =
     drain (snd (setIntensity (snd (UpdateStatus p (status_x env))) 93 (intensity_err env)))"

text \<open>
  A buffer that passes the framing checks of a status reply: at least 9 bytes, the two
  preamble bytes, the status command id, and a declared little-endian length that fits in
  the bytes after the six-byte header.
\<close>

definition framed_status_reply :: "byte list \<Rightarrow> bool" where
  "framed_status_reply buf =
     (9 \<le> length buf \<and> buf ! 0 = 0x22 \<and> buf ! 1 = 0x21 \<and> buf ! 2 = 0xA1
      \<and> 6 + (uint (buf ! 4) + 256 * uint (buf ! 5)) \<le> int (length buf))"

text \<open>
  The packet layout as the specification words it: preamble, command id, reserved zero
  byte, little-endian two-byte payload length, payload, checksum of the payload, footer.
\<close>

definition spec_encode :: "byte \<Rightarrow> byte list \<Rightarrow> byte list" where
  "spec_encode commandId payload =
     [0x22, 0x21, commandId, 0x00,
      word_of_nat (length payload mod 256), word_of_nat (length payload div 256)]
     @ payload @ [calculateCRC8 payload, 0xFF]"

section \<open>The checksum\<close>

lemmas consts_defs =
  Preamble1_def Preamble2_def Footer_def CmdGetStatus_def CmdSetIntensity_def
  CmdPrintRequest_def CmdFlushData_def CmdPrintComplete_def

lemma high_bit: "(c AND 0x80 \<noteq> 0) = (128 \<le> unat c)" for c :: byte
proof -
  have "(c AND 0x80 \<noteq> 0) = bit c 7"
    using and_exp_eq_0_iff_not_bit [of c 7] by simp
  also have "\<dots> = bit (unat c) 7"
    by (simp add: bit_unsigned_iff)
  also have "\<dots> = (128 \<le> unat c)"
  proof -
    have lt: "unat c < 256" using unsigned_less [of c] by simp
    have "bit (unat c) 7 = odd (unat c div 128)" by (simp add: bit_iff_odd)
    also have "\<dots> = (128 \<le> unat c)"
    proof (cases "128 \<le> unat c")
      case True
      with lt have "unat c div 128 = 1" by arith
      with True show ?thesis by simp
    next
      case False
      then have "unat c div 128 = 0" by simp
      with False show ?thesis by simp
    qed
    finally show ?thesis .
  qed
  finally show ?thesis .
qed

lemma unat_shift: "unat (push_bit 1 c) = (2 * unat c) mod 256" for c :: byte
  by (simp add: push_bit_eq_mult unat_word_ariths mult.commute)

lemma unat_shift_xor: "unat (push_bit 1 c XOR 0x07) = ((2 * unat c) XOR 7) mod 256" for c :: byte
proof -
  have "unat (push_bit 1 c XOR 0x07) = unat (push_bit 1 c) XOR unat (7 :: byte)"
    by (simp only: unsigned_xor_eq)
  also have "\<dots> = take_bit 8 (2 * unat c) XOR take_bit 8 (7::nat)"
    by (simp only: unat_shift take_bit_eq_mod) simp
  also have "\<dots> = take_bit 8 ((2 * unat c) XOR 7)"
    by (simp only: take_bit_xor)
  finally show ?thesis by (simp add: take_bit_eq_mod)
qed

lemma unat_crc_round:
  "unat (if c AND 0x80 \<noteq> 0 then push_bit 1 c XOR 0x07 else push_bit 1 (c::byte))
     = spec_round (unat c)"
proof (cases "128 \<le> unat c")
  case True
  have lt: "unat c < 256" using unsigned_less [of c] by simp
  from True have hb: "c AND 0x80 \<noteq> 0" using high_bit [of c] by blast
  from True lt have "128 \<le> unat c mod 256" by simp
  then have "spec_round (unat c) = ((2 * unat c) XOR 7) mod 256"
    by (simp only: spec_round_def if_True)
  with hb show ?thesis by (simp only: if_True unat_shift_xor simp_thms)
next
  case False
  have lt: "unat c < 256" using unsigned_less [of c] by simp
  from False have hb: "\<not> c AND 0x80 \<noteq> 0" using high_bit [of c] by blast
  from False lt have "\<not> 128 \<le> unat c mod 256" by simp
  then have "spec_round (unat c) = (2 * unat c) mod 256"
    by (simp only: spec_round_def if_False)
  with hb show ?thesis by (simp only: if_False unat_shift simp_thms)
qed

lemma unat_crc_rounds: "unat (crc_rounds n c) = (spec_round ^^ n) (unat c)"
  by (induction n arbitrary: c)
    (simp_all only: crc_rounds.simps funpow.simps funpow_swap1 unat_crc_round o_apply id_apply)

lemma unat_crc_foldl:
  "unat (foldl (\<lambda>crc b. crc_rounds 8 (crc XOR b)) c data)
     = foldl (\<lambda>r b. (spec_round ^^ 8) (r XOR b)) (unat c) (map unat data)"
  by (induction data arbitrary: c) (simp_all add: unat_crc_rounds unsigned_xor_eq)

lemma crc_rounds_0: "crc_rounds n 0 = 0"
  by (induction n) simp_all

lemma crc_zero: "calculateCRC8 [0x00] = 0x00"
  by (simp add: calculateCRC8_def crc_rounds_0)

lemma crc_rounds_numeral:
  "crc_rounds (numeral n) crc =
     crc_rounds (pred_numeral n)
       (if crc AND 0x80 \<noteq> 0 then push_bit 1 crc XOR 0x07 else push_bit 1 crc)"
  by (simp add: numeral_eq_Suc)

lemma crc_intensity_93: "calculateCRC8 [93] = 148"
  by (simp add: calculateCRC8_def crc_rounds_numeral)

lemma crc_print_request: "calculateCRC8 [10, 0, 0x30, 0] = 0x65"
  by (simp add: calculateCRC8_def crc_rounds_numeral)

text \<open>The check value of CRC-8 with polynomial 0x07: the ASCII digits 1 to 9 give 0xF4.\<close>

lemma calculateCRC8_check_value:
  "calculateCRC8 [0x31, 0x32, 0x33, 0x34, 0x35, 0x36, 0x37, 0x38, 0x39] = 0xF4"
  by (simp add: calculateCRC8_def crc_rounds_numeral)

text \<open>
  C8. The checksum computed by \<open>calculateCRC8\<close> is the one the specification describes:
  starting from register 0, each input byte is XORed into the register and the register
  then goes through eight rounds of ``shift left by one and XOR 0x07 when the high bit
  was set, else shift left by one'', masked to eight bits; nothing is reflected and
  nothing is XORed at the end. The checksum of the empty payload is 0x00 and the checksum
  of the single byte 0x00 is 0x00.
\<close>

theorem calculateCRC8_is_spec_checksum:
  "unat (calculateCRC8 data) = spec_checksum (map unat data)
   \<and> calculateCRC8 [] = 0x00
   \<and> calculateCRC8 [0x00] = 0x00"
proof -
  have "unat (calculateCRC8 data) = spec_checksum (map unat data)"
    unfolding calculateCRC8_def spec_checksum_def using unat_crc_foldl [of 0 data] by simp
  moreover have "calculateCRC8 [] = 0x00"
    by (simp add: calculateCRC8_def)
  ultimately show ?thesis
    using crc_zero by simp
qed

section \<open>Image transfer\<close>

lemma chunk_count_0: "\<not> i < n \<Longrightarrow> chunk_count n i = 0"
  by (simp add: chunk_count_def)

lemma chunk_count_Suc:
  assumes "i < n"
  shows "chunk_count n i = Suc (chunk_count n (i + 20))"
proof -
  from assms obtain m where n: "n = Suc (i + m)" by (auto dest: less_imp_Suc_add)
  have l: "chunk_count n i = Suc (m div 20)"
  proof -
    have "n - i + 19 = m + 20" by (simp add: n)
    then show ?thesis by (simp add: chunk_count_def)
  qed
  have r: "chunk_count n (i + 20) = m div 20"
  proof (cases "19 \<le> m")
    case True
    then have "n - (i + 20) + 19 = m" by (simp add: n)
    then show ?thesis by (simp add: chunk_count_def)
  next
    case False
    then have "n - (i + 20) + 19 = 19" by (simp add: n)
    with False show ?thesis by (simp add: chunk_count_def)
  qed
  show ?thesis by (simp only: l r)
qed

lemma slice_chunk:
  "i < length d \<Longrightarrow>
   take ((if length d < i + 20 then length d else i + 20) - i) (drop i d) = take 20 (drop i d)"
  by simp

lemma upt_shift: "[0..<Suc m] = 0 # map Suc [0..<m]"
proof -
  have "[0..<Suc m] = 0 # [Suc 0..<Suc m]" by (rule upt_conv_Cons) simp
  then show ?thesis by (simp only: map_Suc_upt)
qed

lemma sendChunks_eq:
  "sendChunks i d ce p =
     p\<lparr>wire := wire p @ map (\<lambda>k. DataWrite (take 20 (drop (i + 20 * k) d)))
                           [0..<chunk_count (length d) i],
       logged := logged p @ map ChunkWriteFailed
                   (filter ce (map (\<lambda>k. i div 20 + k) [0..<chunk_count (length d) i]))\<rparr>"
proof (induction i d ce p rule: sendChunks.induct)
  case (1 i d ce p)
  show ?case
  proof (cases "i < length d")
    case False
    then show ?thesis
      by (simp add: sendChunks.simps [of i] chunk_count_0)
  next
    case True
    let ?p2 = "ifErrNotNil (writeData p (take 20 (drop i d)))
                 (if ce (i div 20) then Some (ChunkWriteFailed (i div 20)) else None)"
    have step: "sendChunks i d ce p = sendChunks (i + 20) d ce ?p2"
      by (subst sendChunks.simps) (simp only: True if_True Let_def slice_chunk [OF True])
    have ih: "sendChunks (i + 20) d ce ?p2 =
       ?p2\<lparr>wire := wire ?p2 @ map (\<lambda>k. DataWrite (take 20 (drop (i + 20 + 20 * k) d)))
                                [0..<chunk_count (length d) (i + 20)],
         logged := logged ?p2 @ map ChunkWriteFailed
                     (filter ce (map (\<lambda>k. (i + 20) div 20 + k)
                                   [0..<chunk_count (length d) (i + 20)]))\<rparr>"
      using "1.IH" [OF True refl refl refl refl refl] by (simp only: slice_chunk [OF True])
    have idx: "(i + 20) div 20 = Suc (i div 20)" by simp
    have plus: "(+) (Suc a) = (\<lambda>x. Suc (a + x))" for a :: nat by (rule ext) simp
    show ?thesis
      unfolding step ih chunk_count_Suc [OF True] upt_shift
      by (cases "ce (i div 20)")
        (simp_all add: ifErrNotNil_def writeData_def o_def idx plus add.assoc)
  qed
qed

lemma concat_slices: "concat (map (\<lambda>k. take n (drop (n * k) xs)) [0..<m]) = take (n * m) xs"
proof (induction m)
  case 0
  show ?case by simp
next
  case (Suc m)
  have "take (n * m) xs @ take n (drop (n * m) xs) = take (n * m + n) xs"
    by (simp add: take_add)
  with Suc show ?case by (simp add: add.commute)
qed

lemma chunk_lengths:
  "length xs = 20 * m \<Longrightarrow>
   map (\<lambda>k. length (take 20 (drop (20 * k) xs))) [0..<m] = replicate m 20"
  by (auto simp add: list_eq_iff_nth_eq)

lemma foldl_deliver_fields:
  "connected (foldl deliver p bs) = connected p"
  "wire (foldl deliver p bs) = wire p"
  "logged (foldl deliver p bs) = logged p"
  "lastStatus (foldl deliver p bs) = lastStatus p"
  by (induction bs arbitrary: p) (simp_all add: deliver_def)

lemma ifErrNotNil_fields:
  "wire (ifErrNotNil p e) = wire p"
  "connected (ifErrNotNil p e) = connected p"
  "notifications (ifErrNotNil p e) = notifications p"
  "lastStatus (ifErrNotNil p e) = lastStatus p"
  by (simp_all add: ifErrNotNil_def split: option.splits)

lemma flushData_wire:
  "wire (snd (flushData p x)) =
     wire p @ (if connected p
               then [ControlWrite [0x22, 0x21, 0xAD, 0x00, 0x01, 0x00, 0x00, 0x00, 0xFF]]
               else [])"
  by (simp add: flushData_def Let_def writeControl_def recv_def crc_zero consts_defs
      split: option.splits list.splits prod.splits)

lemma transferImageData_wire:
  "wire (snd (transferImageData p imageData env)) =
     (let paddedData = (if length imageData < MinImageBytes
               then imageData @ replicate (MinImageBytes - length imageData) 0x00
               else imageData)
      in wire p
         @ map (\<lambda>k. DataWrite (take 20 (drop (20 * k) paddedData)))
             [0..<chunk_count (length paddedData) 0]
         @ (if connected p
            then [ControlWrite [0x22, 0x21, 0xAD, 0x00, 0x01, 0x00, 0x00, 0x00, 0xFF]]
            else []))"
  by (simp add: transferImageData_def Let_def split_beta ifErrNotNil_fields flushData_wire
        foldl_deliver_fields sendChunks_eq)

text \<open>
  C9. For every image buffer shorter than 4320 bytes, \<open>transferImageData\<close> pads it on the
  right with zero bytes to exactly 4320 bytes and writes the padded buffer to the data
  channel in order, in 216 chunks of 20 bytes: chunk \<open>k\<close> is bytes \<open>20k\<close> to \<open>20k + 19\<close>
  of the padded buffer, the chunks put end to end are the padded buffer, and each has
  exactly 20 bytes. Nothing else goes over the transport before the flush command that
  follows the last chunk. A 480-byte image is one such buffer.
\<close>

theorem transferImageData_pads_and_chunks:
  assumes "length imageData < 4320"
  shows
    "(let padded = imageData @ replicate (4320 - length imageData) 0x00;
          chunk = (\<lambda>k. take 20 (drop (20 * k) padded))
      in length padded = 4320
       \<and> wire (snd (transferImageData p imageData env)) =
           wire p @ map (\<lambda>k. DataWrite (chunk k)) [0..<216]
           @ (if connected p
              then [ControlWrite [0x22, 0x21, 0xAD, 0x00, 0x01, 0x00, 0x00, 0x00, 0xFF]]
              else [])
       \<and> concat (map chunk [0..<216]) = padded
       \<and> map (\<lambda>k. length (chunk k)) [0..<216] = replicate 216 20)"
proof -
  let ?padded = "imageData @ replicate (4320 - length imageData) 0x00"
  have len: "length ?padded = 4320"
    using assms by simp
  have cnt: "chunk_count 4320 0 = 216"
    by (simp add: chunk_count_def)
  have w: "wire (snd (transferImageData p imageData env)) =
           wire p @ map (\<lambda>k. DataWrite (take 20 (drop (20 * k) ?padded))) [0..<216]
           @ (if connected p
              then [ControlWrite [0x22, 0x21, 0xAD, 0x00, 0x01, 0x00, 0x00, 0x00, 0xFF]]
              else [])"
    unfolding transferImageData_wire Let_def MinImageBytes_def
    using assms by (simp only: if_True len cnt)
  have "concat (map (\<lambda>k. take 20 (drop (20 * k) ?padded)) [0..<216]) = take (20 * 216) ?padded"
    by (rule concat_slices)
  then have c: "concat (map (\<lambda>k. take 20 (drop (20 * k) ?padded)) [0..<216]) = ?padded"
    using len by simp
  have l: "map (\<lambda>k. length (take 20 (drop (20 * k) ?padded))) [0..<216] = replicate 216 20"
    using len by (intro chunk_lengths) simp
  show ?thesis
    unfolding Let_def using len w c l by blast
qed

theorem transferImageData_pads_and_chunks_witness:
  "length (replicate 480 (0xFF :: byte)) < 4320
   \<and> (let padded = replicate 480 (0xFF :: byte) @ replicate (4320 - length (replicate 480 (0xFF :: byte))) 0x00;
          chunk = (\<lambda>k. take 20 (drop (20 * k) padded))
      in length padded = 4320
       \<and> wire (snd (transferImageData connected_session
                      (replicate 480 0xFF) silent_transfer)) =
           wire connected_session
           @ map (\<lambda>k. DataWrite (chunk k)) [0..<216]
           @ (if connected connected_session
              then [ControlWrite [0x22, 0x21, 0xAD, 0x00, 0x01, 0x00, 0x00, 0x00, 0xFF]]
              else [])
       \<and> concat (map chunk [0..<216]) = padded
       \<and> map (\<lambda>k. length (chunk k)) [0..<216] = replicate 216 20)"
proof -
  have h: "length (replicate 480 (0xFF :: byte)) < 4320" by simp
  from h transferImageData_pads_and_chunks [OF h] show ?thesis by (rule conjI)
qed

section \<open>The status query\<close>

lemma payloadLength_eq:
  "uint a OR push_bit 8 (uint b) = uint a + 256 * uint b" for a b :: byte
proof -
  have t: "take_bit 8 (uint a) = uint a"
    by (rule take_bit_int_eq_self) (use uint_lt2p [of a] in simp_all)
  have "uint a OR push_bit 8 (uint b) = concat_bit 8 (uint a) (uint b)"
    by (simp only: concat_bit_def t)
  also have "\<dots> = take_bit 8 (uint a) + push_bit 8 (uint b)"
    by (rule concat_bit_eq)
  also have "\<dots> = uint a + 256 * uint b"
    by (simp only: t push_bit_eq_mult) simp
  finally show ?thesis .
qed

lemma drain_fields:
  "connected (drain p) = connected p"
  "wire (drain p) = wire p"
  "logged (drain p) = logged p"
  "lastStatus (drain p) = lastStatus p"
  "notifications (drain p) = tl (notifications p)"
  by (simp_all add: drain_def split: list.splits)

lemma parseStatusResponse_fields:
  "connected (snd (parseStatusResponse p buf)) = connected p"
  "wire (snd (parseStatusResponse p buf)) = wire p"
  "logged (snd (parseStatusResponse p buf)) = logged p"
  "notifications (snd (parseStatusResponse p buf)) = notifications p"
  by (simp_all add: parseStatusResponse_def Let_def)

lemma UpdateStatus_connected: "connected (snd (UpdateStatus p x)) = connected p"
  by (simp add: UpdateStatus_def Let_def recv_def writeControl_def drain_fields
      parseStatusResponse_fields split: option.splits list.splits prod.splits)

lemma UpdateStatus_wire:
  "wire (snd (UpdateStatus p x)) =
     wire p @ (if connected p
               then [ControlWrite [0x22, 0x21, 0xA1, 0x00, 0x01, 0x00, 0x00, 0x00, 0xFF]]
               else [])"
  by (simp add: UpdateStatus_def Let_def recv_def writeControl_def drain_fields
      parseStatusResponse_fields crc_zero consts_defs
      split: option.splits list.splits prod.splits)

lemma UpdateStatus_logged: "logged (snd (UpdateStatus p x)) = logged p"
  by (simp add: UpdateStatus_def Let_def recv_def writeControl_def drain_fields
      parseStatusResponse_fields split: option.splits list.splits prod.splits)

lemma UpdateStatus_reply:
  assumes "connected p" "length (notifications p) \<le> 1" "\<not> write_err x" "arrival x = Some buf"
  shows "fst (UpdateStatus p x) = fst (parseStatusResponse p buf)"
    and "lastStatus (snd (UpdateStatus p x)) = lastStatus (snd (parseStatusResponse p buf))"
    and "notifications (snd (UpdateStatus p x)) = []"
proof -
  from assms(2) have d: "notifications (drain p) = []"
    by (cases "notifications p") (simp_all add: drain_def)
  have r: "recv (writeControl (drain p) pkt) (Some buf) = (Some buf, writeControl (drain p) pkt)" for pkt
    using d by (simp add: recv_def writeControl_def)
  have u: "UpdateStatus p x = parseStatusResponse
             (writeControl (drain p) [Preamble1, Preamble2, CmdGetStatus, 0x00, 0x01, 0x00, 0x00,
                calculateCRC8 [0x00], Footer]) buf"
    using assms by (simp add: UpdateStatus_def Let_def r)
  show "fst (UpdateStatus p x) = fst (parseStatusResponse p buf)"
    unfolding u by (simp add: parseStatusResponse_def Let_def)
  show "lastStatus (snd (UpdateStatus p x)) = lastStatus (snd (parseStatusResponse p buf))"
    unfolding u by (simp add: parseStatusResponse_def Let_def writeControl_def drain_fields)
  show "notifications (snd (UpdateStatus p x)) = []"
    unfolding u by (simp add: parseStatusResponse_fields writeControl_def d)
qed

lemma parse_framed:
  assumes "framed_status_reply buf"
  shows "13 \<le> length buf \<Longrightarrow>
           fst (parseStatusResponse p buf) = None \<and>
           lastStatus (snd (parseStatusResponse p buf)) =
             (let s = (lastStatus p)\<lparr>Connected := True, Battery := uint (buf ! 9),
                        Temperature := uint (buf ! 10), Status := uint (buf ! 6),
                        ErrorFlag := uint (buf ! 12),
                        ErrorCode := (if buf ! 12 \<noteq> 0 \<and> 13 < length buf
                                      then uint (buf ! 13) else ErrorCode (lastStatus p))\<rparr>
              in s\<lparr>StatusString := statusSummary s\<rparr>)"
    and "length buf < 13 \<Longrightarrow>
           parseStatusResponse p buf = (Some (ShortStatusPayload (length buf)), p)"
  using assms
  by (auto simp add: framed_status_reply_def parseStatusResponse_def Let_def payloadLength_eq
      consts_defs uint_0_iff)

lemma NewCatPrinter_fields:
  "connected (NewCatPrinter False) = False"
  "notifications (NewCatPrinter False) = []"
  "wire (NewCatPrinter False) = []"
  "logged (NewCatPrinter False) = []"
  "lastStatus (NewCatPrinter False) =
     \<lparr>Connected = False, Battery = 0, Temperature = 0, Status = 0,
      ErrorFlag = 0, ErrorCode = 0, StatusString = ''Not connected''\<rparr>"
  by (simp_all add: NewCatPrinter_def ifErrNotNil_def)

lemma framed_ok: "framed_status_reply status_reply_ok" "length status_reply_ok = 14"
  by (simp_all add: framed_status_reply_def status_reply_ok_def)

lemma framed_err: "framed_status_reply status_reply_err" "length status_reply_err = 14"
  by (simp_all add: framed_status_reply_def status_reply_err_def)

lemma framed_busy: "framed_status_reply status_reply_busy" "length status_reply_busy = 14"
  by (simp_all add: framed_status_reply_def status_reply_busy_def)

lemma framed_short: "framed_status_reply status_reply_short" "length status_reply_short = 9"
  by (simp_all add: framed_status_reply_def status_reply_short_def)

lemma connected_session_eq:
  "connected_session =
     \<lparr>device = True, controlChar = True, notifyChar = True, dataChar = True,
      connected = True, notifications = [],
      lastStatus = \<lparr>Connected = True, Battery = 80, Temperature = 25, Status = 0,
                    ErrorFlag = 0, ErrorCode = 0,
                    StatusString = statusSummary
                      \<lparr>Connected = True, Battery = 80, Temperature = 25, Status = 0,
                       ErrorFlag = 0, ErrorCode = 0, StatusString = ''Not connected''\<rparr>\<rparr>,
      wire = [Scan, DeviceConnect, DiscoverServices, DiscoverCharacteristics,
              EnableNotifications,
              ControlWrite [0x22, 0x21, 0xA1, 0x00, 0x01, 0x00, 0x00, 0x00, 0xFF]],
      logged = []\<rparr>"
  by (simp add: connected_session_def Connect_def good_connect_def answering_def NewCatPrinter_def
      ifErrNotNil_def UpdateStatus_def Let_def drain_def writeControl_def recv_def crc_zero
      parseStatusResponse_def status_reply_ok_def consts_defs)

lemma summary_ok:
  "statusSummary \<lparr>Connected = c, Battery = 80, Temperature = 25, Status = 0,
                       ErrorFlag = 0, ErrorCode = e, StatusString = s\<rparr>
   = ''Battery: 80%, Temp: 25'' @ [CHR 0xC2, CHR 0xB0] @ ''C, Status: 0, Error: 0''"
  by (simp add: statusSummary_def fmt_d_def digits10.simps char_of_def bit_Suc_0_iff)

text \<open>
  C1. On a connected session \<open>UpdateStatus\<close> writes the status query packet
  22 21 A1 00 01 00 00 00 FF to the control channel. When the write succeeds, at most one
  stale notification was buffered, and the reply that arrives passes the framing checks
  of a status reply (at least 9 bytes, preamble, command id 0xA1, declared length fits),
  then: a reply of at least 13 bytes updates the stored status in place, with connected
  set, battery the byte at offset 9, temperature the byte at offset 10, state the byte at
  offset 6, error flag the byte at offset 12, error code the byte at offset 13 when the
  error flag is nonzero and the reply has at least 14 bytes (the stored error code is
  kept otherwise), and the summary string recomputed; a reply shorter than 13 bytes fails
  with \<open>ShortStatusPayload\<close> and leaves the stored status as it was. A 14-byte reply
  with battery 80, temperature 25, state 0 and error flag 0 stores exactly these values.
\<close>

theorem UpdateStatus_updates_status_in_place:
  assumes "connected p"
  shows
    "wire (snd (UpdateStatus p x)) =
       wire p @ [ControlWrite [0x22, 0x21, 0xA1, 0x00, 0x01, 0x00, 0x00, 0x00, 0xFF]]
     \<and> (length (notifications p) \<le> 1 \<and> \<not> write_err x \<and> arrival x = Some buf
          \<and> framed_status_reply buf \<longrightarrow>
          (13 \<le> length buf \<longrightarrow>
             fst (UpdateStatus p x) = None
             \<and> lastStatus (snd (UpdateStatus p x)) =
                 (let s = (lastStatus p)\<lparr>Connected := True, Battery := uint (buf ! 9),
                            Temperature := uint (buf ! 10), Status := uint (buf ! 6),
                            ErrorFlag := uint (buf ! 12),
                            ErrorCode := (if buf ! 12 \<noteq> 0 \<and> 13 < length buf
                                          then uint (buf ! 13) else ErrorCode (lastStatus p))\<rparr>
                  in s\<lparr>StatusString := statusSummary s\<rparr>))
          \<and> (length buf < 13 \<longrightarrow>
                fst (UpdateStatus p x) = Some (ShortStatusPayload (length buf))
                \<and> lastStatus (snd (UpdateStatus p x)) = lastStatus p))"
proof (intro conjI impI)
  show "wire (snd (UpdateStatus p x)) =
       wire p @ [ControlWrite [0x22, 0x21, 0xA1, 0x00, 0x01, 0x00, 0x00, 0x00, 0xFF]]"
    using assms by (simp add: UpdateStatus_wire)
next
  assume h: "length (notifications p) \<le> 1 \<and> \<not> write_err x \<and> arrival x = Some buf
          \<and> framed_status_reply buf"
  assume l: "13 \<le> length buf"
  from h have r: "fst (UpdateStatus p x) = fst (parseStatusResponse p buf)"
      "lastStatus (snd (UpdateStatus p x)) = lastStatus (snd (parseStatusResponse p buf))"
    using UpdateStatus_reply [OF assms, of x buf] by simp_all
  from h have f: "framed_status_reply buf" by simp
  show "fst (UpdateStatus p x) = None"
    using parse_framed(1) [OF f l, of p] r by simp
  show "lastStatus (snd (UpdateStatus p x)) =
                 (let s = (lastStatus p)\<lparr>Connected := True, Battery := uint (buf ! 9),
                            Temperature := uint (buf ! 10), Status := uint (buf ! 6),
                            ErrorFlag := uint (buf ! 12),
                            ErrorCode := (if buf ! 12 \<noteq> 0 \<and> 13 < length buf
                                          then uint (buf ! 13) else ErrorCode (lastStatus p))\<rparr>
                  in s\<lparr>StatusString := statusSummary s\<rparr>)"
    using parse_framed(1) [OF f l, of p] r by simp
next
  assume h: "length (notifications p) \<le> 1 \<and> \<not> write_err x \<and> arrival x = Some buf
          \<and> framed_status_reply buf"
  assume l: "length buf < 13"
  from h have r: "fst (UpdateStatus p x) = fst (parseStatusResponse p buf)"
      "lastStatus (snd (UpdateStatus p x)) = lastStatus (snd (parseStatusResponse p buf))"
    using UpdateStatus_reply [OF assms, of x buf] by simp_all
  from h have f: "framed_status_reply buf" by simp
  show "fst (UpdateStatus p x) = Some (ShortStatusPayload (length buf))"
    using parse_framed(2) [OF f l, of p] r by simp
  show "lastStatus (snd (UpdateStatus p x)) = lastStatus p"
    using parse_framed(2) [OF f l, of p] r by simp
qed

lemma connected_session_fields:
  "connected connected_session"
  "notifications connected_session = []"
  "lastStatus connected_session =
     \<lparr>Connected = True, Battery = 80, Temperature = 25, Status = 0,
      ErrorFlag = 0, ErrorCode = 0,
      StatusString = ''Battery: 80%, Temp: 25'' @ [CHR 0xC2, CHR 0xB0] @ ''C, Status: 0, Error: 0''\<rparr>"
  "wire connected_session =
     [Scan, DeviceConnect, DiscoverServices, DiscoverCharacteristics, EnableNotifications,
      ControlWrite [0x22, 0x21, 0xA1, 0x00, 0x01, 0x00, 0x00, 0x00, 0xFF]]"
  "logged connected_session = []"
  by (simp_all only: connected_session_eq summary_ok CatPrinter.simps)

text \<open>The theorem at the 14-byte reply \<open>status_reply_ok\<close> and at a 9-byte reply.\<close>

theorem UpdateStatus_updates_status_in_place_witness:
  "connected connected_session
   \<and> length (notifications connected_session) \<le> 1
   \<and> \<not> write_err (answering status_reply_ok)
   \<and> arrival (answering status_reply_ok) = Some status_reply_ok
   \<and> framed_status_reply status_reply_ok
   \<and> 13 \<le> length status_reply_ok
   \<and> wire (snd (UpdateStatus connected_session (answering status_reply_ok))) =
       wire connected_session @ [ControlWrite [0x22, 0x21, 0xA1, 0x00, 0x01, 0x00, 0x00, 0x00, 0xFF]]
   \<and> fst (UpdateStatus connected_session (answering status_reply_ok)) = None
   \<and> lastStatus (snd (UpdateStatus connected_session (answering status_reply_ok))) =
       \<lparr>Connected = True, Battery = 80, Temperature = 25, Status = 0,
        ErrorFlag = 0, ErrorCode = 0,
        StatusString = ''Battery: 80%, Temp: 25'' @ [CHR 0xC2, CHR 0xB0] @ ''C, Status: 0, Error: 0''\<rparr>
   \<and> framed_status_reply status_reply_short
   \<and> length status_reply_short < 13
   \<and> fst (UpdateStatus connected_session (answering status_reply_short)) = Some (ShortStatusPayload 9)
   \<and> lastStatus (snd (UpdateStatus connected_session (answering status_reply_short))) =
       lastStatus connected_session"
proof -
  note c = connected_session_fields(1)
  have n: "length (notifications connected_session) \<le> 1"
    by (simp add: connected_session_fields)
  have a: "\<not> write_err (answering buf)" "arrival (answering buf) = Some buf" for buf
    by (simp_all add: answering_def)
  note ok = UpdateStatus_updates_status_in_place [OF c, of "answering status_reply_ok" status_reply_ok]
  note short = UpdateStatus_updates_status_in_place [OF c, of "answering status_reply_short" status_reply_short]
  have s: "lastStatus (snd (UpdateStatus connected_session (answering status_reply_ok))) =
       \<lparr>Connected = True, Battery = 80, Temperature = 25, Status = 0,
        ErrorFlag = 0, ErrorCode = 0,
        StatusString = ''Battery: 80%, Temp: 25'' @ [CHR 0xC2, CHR 0xB0] @ ''C, Status: 0, Error: 0''\<rparr>"
    using ok n a framed_ok
    by (simp add: connected_session_fields status_reply_ok_def Let_def summary_ok)
  show ?thesis
    using ok short n a framed_ok framed_short c s by simp
qed

lemma answering_fields:
  "\<not> write_err (answering buf)" "arrival (answering buf) = Some buf"
  by (simp_all add: answering_def)

lemma stale_error_session_fields:
  "connected stale_error_session"
  "notifications stale_error_session = []"
  "ErrorFlag (lastStatus stale_error_session) = 1"
  "ErrorCode (lastStatus stale_error_session) = 7"
proof -
  note u = UpdateStatus_reply [OF connected_session_fields(1),
      of "answering status_reply_err" status_reply_err]
  have n: "length (notifications connected_session) \<le> 1"
    by (simp add: connected_session_fields)
  show "connected stale_error_session"
    by (simp add: stale_error_session_def UpdateStatus_connected connected_session_fields)
  show "notifications stale_error_session = []"
    using u(3) n by (simp add: stale_error_session_def answering_fields)
  have l: "lastStatus stale_error_session = lastStatus (snd (parseStatusResponse connected_session status_reply_err))"
    using u(2) n by (simp add: stale_error_session_def answering_fields)
  show "ErrorFlag (lastStatus stale_error_session) = 1"
    unfolding l using parse_framed(1) [OF framed_err(1), of connected_session]
    by (simp add: framed_err Let_def status_reply_err_def)
  show "ErrorCode (lastStatus stale_error_session) = 7"
    unfolding l using parse_framed(1) [OF framed_err(1), of connected_session]
    by (simp add: framed_err Let_def status_reply_err_def)
qed

text \<open>
  The stored status is not replaced as a whole: the same successful reply, with error
  flag 0, leaves error code 7 in a session whose previous reply reported it, and error
  code 0 in a session that never saw an error.
\<close>

theorem status_not_replaced_wholesale:
  "fst (UpdateStatus stale_error_session (answering status_reply_ok)) = None
   \<and> fst (UpdateStatus connected_session (answering status_reply_ok)) = None
   \<and> ErrorFlag (lastStatus (snd (UpdateStatus stale_error_session (answering status_reply_ok)))) = 0
   \<and> ErrorCode (lastStatus (snd (UpdateStatus stale_error_session (answering status_reply_ok)))) = 7
   \<and> ErrorCode (lastStatus (snd (UpdateStatus connected_session (answering status_reply_ok)))) = 0
   \<and> lastStatus (snd (UpdateStatus stale_error_session (answering status_reply_ok)))
       \<noteq> lastStatus (snd (UpdateStatus connected_session (answering status_reply_ok)))"
proof -
  have n1: "length (notifications stale_error_session) \<le> 1"
    by (simp add: stale_error_session_fields)
  have n2: "length (notifications connected_session) \<le> 1"
    by (simp add: connected_session_fields)
  note u1 = UpdateStatus_reply [OF stale_error_session_fields(1) n1 answering_fields,
      of status_reply_ok]
  note u2 = UpdateStatus_reply [OF connected_session_fields(1) n2 answering_fields,
      of status_reply_ok]
  have l: "13 \<le> length status_reply_ok" by (simp add: framed_ok)
  note p1 = parse_framed(1) [OF framed_ok(1) l, of stale_error_session]
  note p2 = parse_framed(1) [OF framed_ok(1) l, of connected_session]
  have a: "fst (UpdateStatus stale_error_session (answering status_reply_ok)) = None"
    using u1(1) p1 by simp
  have b: "fst (UpdateStatus connected_session (answering status_reply_ok)) = None"
    using u2(1) p2 by simp
  have c: "ErrorFlag (lastStatus (snd (UpdateStatus stale_error_session (answering status_reply_ok)))) = 0"
    using u1(2) p1 by (simp add: Let_def status_reply_ok_def)
  have d: "ErrorCode (lastStatus (snd (UpdateStatus stale_error_session (answering status_reply_ok)))) = 7"
    using u1(2) p1 by (simp add: Let_def status_reply_ok_def stale_error_session_fields)
  have e: "ErrorCode (lastStatus (snd (UpdateStatus connected_session (answering status_reply_ok)))) = 0"
    using u2(2) p2 by (simp add: Let_def status_reply_ok_def connected_session_fields)
  from d e have "lastStatus (snd (UpdateStatus stale_error_session (answering status_reply_ok)))
       \<noteq> lastStatus (snd (UpdateStatus connected_session (answering status_reply_ok)))"
    by auto
  with a b c d e show ?thesis by simp
qed

text \<open>
  C7. \<open>parseStatusResponse\<close> rejects every buffer shorter than 9 bytes as too short; it
  rejects every buffer of at least 9 bytes whose first two bytes are not 0x22, 0x21 for
  its preamble; with the right preamble it rejects every command id other than 0xA1 as an
  unexpected response, before looking at the length; and for a buffer of at least 9 bytes
  with the right preamble and command id 0xA1 it reports a length mismatch whenever the
  little-endian length declared at offsets 4-5 exceeds the bytes that follow the six-byte
  header. In each case the session is left unchanged.
\<close>

theorem parseStatusResponse_framing_errors:
  "(length buf < 9 \<longrightarrow>
      parseStatusResponse p buf = (Some (FrameTooShort (length buf)), p))
   \<and> (9 \<le> length buf \<and> (buf ! 0 \<noteq> 0x22 \<or> buf ! 1 \<noteq> 0x21) \<longrightarrow>
      parseStatusResponse p buf = (Some (BadPreamble (buf ! 0) (buf ! 1)), p))
   \<and> (9 \<le> length buf \<and> buf ! 0 = 0x22 \<and> buf ! 1 = 0x21 \<and> buf ! 2 \<noteq> 0xA1 \<longrightarrow>
      parseStatusResponse p buf = (Some (UnexpectedResponse (buf ! 2)), p))
   \<and> (9 \<le> length buf \<and> buf ! 0 = 0x22 \<and> buf ! 1 = 0x21 \<and> buf ! 2 = 0xA1
        \<and> int (length buf) - 6 < uint (buf ! 4) + 256 * uint (buf ! 5) \<longrightarrow>
      parseStatusResponse p buf =
        (Some (LengthMismatch (length buf) (6 + (uint (buf ! 4) + 256 * uint (buf ! 5)))), p))"
  by (simp add: parseStatusResponse_def Let_def payloadLength_eq consts_defs)

text \<open>One buffer for each of the four rejections.\<close>

theorem parseStatusResponse_framing_errors_witness:
  "length [0x22, 0x21, 0xA1 :: byte] < 9
   \<and> parseStatusResponse connected_session [0x22, 0x21, 0xA1]
       = (Some (FrameTooShort 3), connected_session)
   \<and> parseStatusResponse connected_session [0x21, 0x22, 0xA1, 0x00, 0x01, 0x00, 0x00, 0x00, 0xFF]
       = (Some (BadPreamble 0x21 0x22), connected_session)
   \<and> parseStatusResponse connected_session print_accepted
       = (Some (UnexpectedResponse 0xA9), connected_session)
   \<and> parseStatusResponse connected_session [0x22, 0x21, 0xA1, 0x00, 0x04, 0x00, 0x00, 0x00, 0xFF]
       = (Some (LengthMismatch 9 10), connected_session)"
  using parseStatusResponse_framing_errors [of "[0x22, 0x21, 0xA1]" connected_session]
    parseStatusResponse_framing_errors
      [of "[0x21, 0x22, 0xA1, 0x00, 0x01, 0x00, 0x00, 0x00, 0xFF]" connected_session]
    parseStatusResponse_framing_errors [of print_accepted connected_session]
    parseStatusResponse_framing_errors
      [of "[0x22, 0x21, 0xA1, 0x00, 0x04, 0x00, 0x00, 0x00, 0xFF]" connected_session]
  by (simp add: print_accepted_def)

text \<open>
  A buffer that declares 65535 payload bytes and has three after its header, with the
  command id of a print reply: the parser reports the command id, not the length.
\<close>

theorem length_check_comes_after_command_check:
  "(3 :: int) < uint (0xFF :: byte) + 256 * uint (0xFF :: byte)
   \<and> parseStatusResponse connected_session
         [0x22, 0x21, 0xA9, 0x00, 0xFF, 0xFF, 0x00, 0x00, 0xFF]
       = (Some (UnexpectedResponse 0xA9), connected_session)"
  by (simp add: parseStatusResponse_def consts_defs)

section \<open>Printing\<close>

lemma setIntensity_fields:
  "connected (snd (setIntensity p i w)) = connected p"
  "lastStatus (snd (setIntensity p i w)) = lastStatus p"
  "notifications (snd (setIntensity p i w)) = notifications p"
  "logged (snd (setIntensity p i w)) = logged p"
  by (simp_all add: setIntensity_def Let_def writeControl_def)

lemma setIntensity_93_wire:
  "wire (snd (setIntensity p 93 w)) =
     wire p @ (if connected p
               then [ControlWrite [0x22, 0x21, 0xA2, 0x00, 0x01, 0x00, 0x5D, 0x94, 0xFF]]
               else [])"
  by (simp add: setIntensity_def Let_def writeControl_def crc_intensity_93 consts_defs)

lemma refreshed_fields:
  "connected (refreshed p env) = connected p"
  "logged (refreshed p env) = logged p"
  "lastStatus (refreshed p env) = lastStatus (snd (UpdateStatus p (status_x env)))"
  "wire (refreshed p env) =
     wire p @ (if connected p
               then [ControlWrite [0x22, 0x21, 0xA1, 0x00, 0x01, 0x00, 0x00, 0x00, 0xFF],
                     ControlWrite [0x22, 0x21, 0xA2, 0x00, 0x01, 0x00, 0x5D, 0x94, 0xFF]]
               else [])"
  by (simp_all add: refreshed_def drain_fields setIntensity_fields setIntensity_93_wire
      UpdateStatus_connected UpdateStatus_wire UpdateStatus_logged)

lemma UpdateStatus_disconnected: "\<not> connected p \<Longrightarrow> UpdateStatus p x = (Some NotConnected, p)"
  by (simp add: UpdateStatus_def)

lemma line_count_bytes:
  "word_of_int ((10 :: int) AND 0xFF) = (10 :: byte)"
  "word_of_int (drop_bit 8 (10 :: int) AND 0xFF) = (0 :: byte)"
  by (simp_all add: drop_bit_eq_div)

lemma TestPrintCard_refreshed:
  "TestPrintCard p env =
     (let p3 = refreshed p env
      in if ErrorFlag (lastStatus p3) \<noteq> 0
           then (Some (PrinterError (ErrorFlag (lastStatus p3))), p3)
         else if Status (lastStatus p3) \<noteq> 0 then (Some PrinterBusy, p3)
         else
           let p4 = writeControl p3
                      [0x22, 0x21, 0xA9, 0x00, 0x04, 0x00, 0x0A, 0x00, 0x30, 0x00, 0x65, 0xFF]
           in if write_err (print_x env) then (Some PrintWriteFailed, p4)
              else (case recv p4 (arrival (print_x env)) of
                      (Some buf, p5) \<Rightarrow>
                        if 7 \<le> length buf then
                          if buf ! 2 = 0xA9 then
                            if buf ! 6 = 0x00 then transferImageData p5 testImage (transfer env)
                            else (Some (PrintRejected (buf ! 6)), p5)
                          else (Some (UnexpectedResponse (buf ! 2)), p5)
                        else (Some (ShortPrintResponse (length buf)), p5)
                    | (None, p5) \<Rightarrow> (Some PrintRequestTimeout, p5)))"
proof -
  have n: "[a, b] ! 0 = a" "[a, b] ! 1 = b" for a b :: byte
    by simp_all
  show ?thesis
    unfolding TestPrintCard_def refreshed_def Let_def split_beta n line_count_bytes
      crc_print_request consts_defs
    by (rule refl)
qed

lemma recv_fields:
  "connected (snd (recv p a)) = connected p"
  "wire (snd (recv p a)) = wire p"
  "logged (snd (recv p a)) = logged p"
  "lastStatus (snd (recv p a)) = lastStatus p"
  by (simp_all add: recv_def split: list.splits)

lemma recv_empty: "notifications p = [] \<Longrightarrow> recv p a = (a, p)"
  by (simp add: recv_def)

lemma writeControl_fields:
  "connected (writeControl p pkt) = connected p"
  "notifications (writeControl p pkt) = notifications p"
  "logged (writeControl p pkt) = logged p"
  "lastStatus (writeControl p pkt) = lastStatus p"
  "wire (writeControl p pkt) = wire p @ [ControlWrite pkt]"
  by (simp_all add: writeControl_def)

lemma flushData_fields:
  "connected (snd (flushData p x)) = connected p"
  "logged (snd (flushData p x)) = logged p"
  "lastStatus (snd (flushData p x)) = lastStatus p"
  by (simp_all add: flushData_def Let_def split_beta recv_fields writeControl_fields
      split: option.splits)

lemma flushData_result:
  assumes "connected q" "\<not> write_err x"
  shows "fst (flushData q x) =
     (case (case notifications q of [] \<Rightarrow> arrival x | b # bs \<Rightarrow> Some b) of
        None \<Rightarrow> Some PrintCompletionTimeout
      | Some buf \<Rightarrow> if 3 \<le> length buf \<and> buf ! 2 = 0xAA then None
                    else Some (UnexpectedCompletionResponse buf))"
  using assms
  by (cases "notifications q"; cases "arrival x")
    (simp_all add: flushData_def Let_def recv_def writeControl_def consts_defs)

lemma sendChunks_fields:
  "connected (sendChunks i d ce p) = connected p"
  "notifications (sendChunks i d ce p) = notifications p"
  "lastStatus (sendChunks i d ce p) = lastStatus p"
  "logged (sendChunks i d ce p) =
     logged p @ map ChunkWriteFailed
                   (filter ce (map (\<lambda>k. i div 20 + k) [0..<chunk_count (length d) i]))"
  by (simp_all add: sendChunks_eq)

lemma transferImageData_result: "fst (transferImageData p imageData env) = None"
  by (simp add: transferImageData_def Let_def split_beta)

lemma padded_length:
  "length (if length imageData < MinImageBytes
           then imageData @ replicate (MinImageBytes - length imageData) 0x00
           else imageData) = max (length imageData) 4320"
  by (simp add: MinImageBytes_def)

lemma transferImageData_logged:
  "logged (snd (transferImageData p imageData env)) =
     logged p
     @ map ChunkWriteFailed
         (filter (chunk_err env) [0..<chunk_count (max (length imageData) 4320) 0])
     @ (case fst (flushData
                    (foldl deliver
                       (sendChunks 0
                          (if length imageData < MinImageBytes
                           then imageData @ replicate (MinImageBytes - length imageData) 0x00
                           else imageData)
                          (chunk_err env) p)
                       (during_transfer env))
                    (flush_x env)) of
          None \<Rightarrow> [] | Some e \<Rightarrow> [e])"
proof -
  define d where "d = (if length imageData < MinImageBytes
                       then imageData @ replicate (MinImageBytes - length imageData) 0x00
                       else imageData)"
  have len: "length d = max (length imageData) 4320"
    unfolding d_def by (rule padded_length)
  have m: "map (\<lambda>k. 0 div 20 + k) xs = xs" for xs :: "nat list"
    by (induction xs) simp_all
  have "logged (snd (transferImageData p imageData env)) =
     logged (sendChunks 0 d (chunk_err env) p)
     @ (case fst (flushData (foldl deliver (sendChunks 0 d (chunk_err env) p)
                    (during_transfer env)) (flush_x env)) of
          None \<Rightarrow> [] | Some e \<Rightarrow> [e])"
    unfolding transferImageData_def Let_def split_beta d_def [symmetric]
    by (simp add: ifErrNotNil_def flushData_fields foldl_deliver_fields split: option.splits)
  then show ?thesis
    unfolding d_def [symmetric] by (simp only: sendChunks_fields len m append_assoc)
qed

lemma transferImageData_flush_failure:
  assumes "connected p" "notifications p = []" "during_transfer env = []"
    "\<not> write_err (flush_x env)"
  shows "logged (snd (transferImageData p imageData env)) =
     logged p
     @ map ChunkWriteFailed
         (filter (chunk_err env) [0..<chunk_count (max (length imageData) 4320) 0])
     @ (case arrival (flush_x env) of
          None \<Rightarrow> [PrintCompletionTimeout]
        | Some buf \<Rightarrow> if 3 \<le> length buf \<and> buf ! 2 = 0xAA then []
                      else [UnexpectedCompletionResponse buf])"
proof -
  let ?q = "foldl deliver
              (sendChunks 0
                 (if length imageData < MinImageBytes
                  then imageData @ replicate (MinImageBytes - length imageData) 0x00
                  else imageData)
                 (chunk_err env) p)
              (during_transfer env)"
  have c: "connected ?q" using assms(1) by (simp add: foldl_deliver_fields sendChunks_fields)
  have n: "notifications ?q = []" using assms(2,3) by (simp add: sendChunks_fields)
  show ?thesis
    unfolding transferImageData_logged flushData_result [OF c assms(4)] n
    by (simp split: option.splits)
qed

lemma TestPrintCard_never_flush_error:
  "fst (TestPrintCard p env) \<noteq> Some PrintCompletionTimeout"
  "fst (TestPrintCard p env) \<noteq> Some (UnexpectedCompletionResponse b)"
  "fst (TestPrintCard p env) \<noteq> Some NotConnected"
  by (simp_all add: TestPrintCard_refreshed Let_def transferImageData_result
      split: prod.splits option.splits)

lemma silent_print_fields:
  "status_x silent_print = silent" "intensity_err silent_print = False"
  "print_x silent_print = silent" "transfer silent_print = silent_transfer"
  "write_err silent = False" "arrival silent = None"
  "chunk_err silent_transfer = (\<lambda>k. False)" "during_transfer silent_transfer = []"
  "flush_x silent_transfer = silent"
  by (simp_all add: silent_print_def silent_def silent_transfer_def)

text \<open>
  C5. \<open>TestPrintCard\<close> first refreshes the status, sets the intensity and drains one
  notification; on a connected session this writes the status query and the set-intensity
  packet. If the stored error flag is then nonzero it fails with \<open>PrinterError\<close> carrying
  that error flag; otherwise, if the stored state is nonzero, it fails with
  \<open>PrinterBusy\<close>. In both cases it returns the session exactly as the refresh left it:
  no print request, no image chunk and no flush command is written. The status checked
  is the one \<open>UpdateStatus\<close> left; on a session that is not connected that is the
  status stored before the call.
\<close>

theorem TestPrintCard_gating:
  "(ErrorFlag (lastStatus (refreshed p env)) \<noteq> 0 \<longrightarrow>
      TestPrintCard p env =
        (Some (PrinterError (ErrorFlag (lastStatus (refreshed p env)))), refreshed p env))
   \<and> (ErrorFlag (lastStatus (refreshed p env)) = 0 \<and> Status (lastStatus (refreshed p env)) \<noteq> 0 \<longrightarrow>
      TestPrintCard p env = (Some PrinterBusy, refreshed p env))
   \<and> lastStatus (refreshed p env) = lastStatus (snd (UpdateStatus p (status_x env)))
   \<and> wire (refreshed p env) =
       wire p @ (if connected p
                 then [ControlWrite [0x22, 0x21, 0xA1, 0x00, 0x01, 0x00, 0x00, 0x00, 0xFF],
                       ControlWrite [0x22, 0x21, 0xA2, 0x00, 0x01, 0x00, 0x5D, 0x94, 0xFF]]
                 else [])
   \<and> (\<not> connected p \<longrightarrow> lastStatus (refreshed p env) = lastStatus p)"
  by (simp add: TestPrintCard_refreshed Let_def refreshed_fields UpdateStatus_disconnected)

lemma refreshed_status_reply:
  assumes "connected p" "notifications p = []" "status_x env = answering buf"
    "framed_status_reply buf" "13 \<le> length buf"
  shows "ErrorFlag (lastStatus (refreshed p env)) = uint (buf ! 12)"
    and "Status (lastStatus (refreshed p env)) = uint (buf ! 6)"
    and "ErrorCode (lastStatus (refreshed p env)) =
           (if buf ! 12 \<noteq> 0 \<and> 13 < length buf then uint (buf ! 13) else ErrorCode (lastStatus p))"
proof -
  have n: "length (notifications p) \<le> 1" using assms(2) by simp
  note u = UpdateStatus_reply(2) [OF assms(1) n answering_fields, of buf]
  note q = parse_framed(1) [OF assms(4,5), of p]
  show "ErrorFlag (lastStatus (refreshed p env)) = uint (buf ! 12)"
    using u q by (simp add: refreshed_fields assms(3) Let_def)
  show "Status (lastStatus (refreshed p env)) = uint (buf ! 6)"
    using u q by (simp add: refreshed_fields assms(3) Let_def)
  show "ErrorCode (lastStatus (refreshed p env)) =
           (if buf ! 12 \<noteq> 0 \<and> 13 < length buf then uint (buf ! 13) else ErrorCode (lastStatus p))"
    using u q by (simp add: refreshed_fields assms(3) Let_def)
qed

lemma status_x_update: "status_x (silent_print\<lparr>status_x := x\<rparr>) = x"
  by simp

text \<open>
  A connected session whose refresh reports error flag 1, one whose refresh reports
  state 1, and a session that is not connected.
\<close>

theorem TestPrintCard_gating_witness:
  "ErrorFlag (lastStatus (refreshed connected_session
       (silent_print\<lparr>status_x := answering status_reply_err\<rparr>))) \<noteq> 0
   \<and> fst (TestPrintCard connected_session (silent_print\<lparr>status_x := answering status_reply_err\<rparr>))
       = Some (PrinterError 1)
   \<and> ErrorFlag (lastStatus (refreshed connected_session
       (silent_print\<lparr>status_x := answering status_reply_busy\<rparr>))) = 0
   \<and> Status (lastStatus (refreshed connected_session
       (silent_print\<lparr>status_x := answering status_reply_busy\<rparr>))) \<noteq> 0
   \<and> fst (TestPrintCard connected_session (silent_print\<lparr>status_x := answering status_reply_busy\<rparr>))
       = Some PrinterBusy
   \<and> wire (snd (TestPrintCard connected_session (silent_print\<lparr>status_x := answering status_reply_busy\<rparr>)))
       = wire connected_session
         @ [ControlWrite [0x22, 0x21, 0xA1, 0x00, 0x01, 0x00, 0x00, 0x00, 0xFF],
            ControlWrite [0x22, 0x21, 0xA2, 0x00, 0x01, 0x00, 0x5D, 0x94, 0xFF]]
   \<and> \<not> connected (NewCatPrinter False)
   \<and> lastStatus (refreshed (NewCatPrinter False) silent_print) = lastStatus (NewCatPrinter False)"
proof -
  let ?e = "silent_print\<lparr>status_x := answering status_reply_err\<rparr>"
  let ?b = "silent_print\<lparr>status_x := answering status_reply_busy\<rparr>"
  note c = connected_session_fields(1,2)
  have e: "ErrorFlag (lastStatus (refreshed connected_session ?e)) = 1"
    using refreshed_status_reply(1) [OF c status_x_update framed_err(1)]
    by (simp add: framed_err status_reply_err_def)
  have b: "ErrorFlag (lastStatus (refreshed connected_session ?b)) = 0"
      "Status (lastStatus (refreshed connected_session ?b)) = 1"
    using refreshed_status_reply(1,2) [OF c status_x_update framed_busy(1)]
    by (simp_all add: framed_busy status_reply_busy_def)
  have g1: "TestPrintCard connected_session ?e =
      (Some (PrinterError 1), refreshed connected_session ?e)"
    using TestPrintCard_gating [of connected_session ?e] e by simp
  have g2: "TestPrintCard connected_session ?b = (Some PrinterBusy, refreshed connected_session ?b)"
    using TestPrintCard_gating [of connected_session ?b] b by simp
  have w: "wire (refreshed connected_session ?b) = wire connected_session
         @ [ControlWrite [0x22, 0x21, 0xA1, 0x00, 0x01, 0x00, 0x00, 0x00, 0xFF],
            ControlWrite [0x22, 0x21, 0xA2, 0x00, 0x01, 0x00, 0x5D, 0x94, 0xFF]]"
    using TestPrintCard_gating [of connected_session ?b] c(1) by simp
  have g3: "lastStatus (refreshed (NewCatPrinter False) silent_print) = lastStatus (NewCatPrinter False)"
    using TestPrintCard_gating [of "NewCatPrinter False" silent_print] NewCatPrinter_fields(1)
    by blast
  show ?thesis
    unfolding g1 g2 using e b w g3 NewCatPrinter_fields(1) by simp
qed

text \<open>
  A refused print has already written two packets, and the error carries the error flag 1
  although the stored error code is 7.
\<close>

theorem print_gate_follows_refresh_packets:
  "fst (TestPrintCard connected_session (silent_print\<lparr>status_x := answering status_reply_err\<rparr>))
     = Some (PrinterError 1)
   \<and> ErrorCode (lastStatus (snd (TestPrintCard connected_session
         (silent_print\<lparr>status_x := answering status_reply_err\<rparr>)))) = 7
   \<and> wire (snd (TestPrintCard connected_session
         (silent_print\<lparr>status_x := answering status_reply_err\<rparr>)))
       = wire connected_session
         @ [ControlWrite [0x22, 0x21, 0xA1, 0x00, 0x01, 0x00, 0x00, 0x00, 0xFF],
            ControlWrite [0x22, 0x21, 0xA2, 0x00, 0x01, 0x00, 0x5D, 0x94, 0xFF]]"
proof -
  let ?e = "silent_print\<lparr>status_x := answering status_reply_err\<rparr>"
  note c = connected_session_fields(1,2)
  have e: "ErrorFlag (lastStatus (refreshed connected_session ?e)) = 1"
    using refreshed_status_reply(1) [OF c status_x_update framed_err(1)]
    by (simp add: framed_err status_reply_err_def)
  have k: "ErrorCode (lastStatus (refreshed connected_session ?e)) = 7"
    using refreshed_status_reply(3) [OF c status_x_update framed_err(1)]
    by (simp add: framed_err status_reply_err_def)
  have t: "TestPrintCard connected_session ?e =
      (Some (PrinterError 1), refreshed connected_session ?e)"
    using e by (simp add: TestPrintCard_refreshed Let_def)
  show ?thesis
    unfolding t using k c by (simp add: refreshed_fields)
qed

lemma refreshed_notifications:
  "notifications (refreshed p env) = tl (notifications (snd (UpdateStatus p (status_x env))))"
  by (simp add: refreshed_def drain_fields setIntensity_fields)

lemma print_accepted_flow:
  assumes "connected p" "notifications p = []" "status_x env = answering buf"
    "framed_status_reply buf" "13 \<le> length buf" "buf ! 12 = 0" "buf ! 6 = 0"
    "print_x env = answering print_accepted"
  shows "TestPrintCard p env =
           transferImageData
             (writeControl (refreshed p env)
                [0x22, 0x21, 0xA9, 0x00, 0x04, 0x00, 0x0A, 0x00, 0x30, 0x00, 0x65, 0xFF])
             testImage (transfer env)"
    and "notifications (refreshed p env) = []"
proof -
  have n: "length (notifications p) \<le> 1" using assms(2) by simp
  show e: "notifications (refreshed p env) = []"
    using UpdateStatus_reply(3) [OF assms(1) n answering_fields, of buf]
    by (simp add: refreshed_notifications assms(3))
  have f: "ErrorFlag (lastStatus (refreshed p env)) = 0"
      "Status (lastStatus (refreshed p env)) = 0"
    using refreshed_status_reply(1,2) [OF assms(1-5)] assms(6,7) by simp_all
  show "TestPrintCard p env =
           transferImageData
             (writeControl (refreshed p env)
                [0x22, 0x21, 0xA9, 0x00, 0x04, 0x00, 0x0A, 0x00, 0x30, 0x00, 0x65, 0xFF])
             testImage (transfer env)"
    using f e
    by (simp add: TestPrintCard_refreshed Let_def assms(8) answering_fields recv_empty
        writeControl_fields print_accepted_def)
qed

lemma TestPrintCard_success_iff:
  "(fst (TestPrintCard p env) = None) =
     (ErrorFlag (lastStatus (refreshed p env)) = 0
      \<and> Status (lastStatus (refreshed p env)) = 0
      \<and> \<not> write_err (print_x env)
      \<and> (\<exists>r. fst (recv (writeControl (refreshed p env)
                         [0x22, 0x21, 0xA9, 0x00, 0x04, 0x00, 0x0A, 0x00, 0x30, 0x00, 0x65, 0xFF])
                      (arrival (print_x env))) = Some r
               \<and> 7 \<le> length r \<and> r ! 2 = 0xA9 \<and> r ! 6 = 0x00))"
proof -
  let ?p4 = "writeControl (refreshed p env)
               [0x22, 0x21, 0xA9, 0x00, 0x04, 0x00, 0x0A, 0x00, 0x30, 0x00, 0x65, 0xFF]"
  obtain r p5 where r: "recv ?p4 (arrival (print_x env)) = (r, p5)"
    by (cases "recv ?p4 (arrival (print_x env))")
  show ?thesis
    by (cases r) (simp_all add: TestPrintCard_refreshed Let_def r transferImageData_result)
qed

lemma TestPrintCard_accepted_logged:
  assumes "connected p"
    and "ErrorFlag (lastStatus (refreshed p env)) = 0"
    and "Status (lastStatus (refreshed p env)) = 0"
    and "\<not> write_err (print_x env)"
    and "notifications (refreshed p env) = []"
    and "arrival (print_x env) = Some r"
    and "7 \<le> length r \<and> r ! 2 = 0xA9 \<and> r ! 6 = 0x00"
    and "during_transfer (transfer env) = []"
    and "\<not> write_err (flush_x (transfer env))"
  shows "logged (snd (TestPrintCard p env)) =
     logged p
     @ map ChunkWriteFailed
         (filter (chunk_err (transfer env)) [0..<chunk_count (max (length testImage) 4320) 0])
     @ (case arrival (flush_x (transfer env)) of
          None \<Rightarrow> [PrintCompletionTimeout]
        | Some buf \<Rightarrow> if 3 \<le> length buf \<and> buf ! 2 = 0xAA then []
                      else [UnexpectedCompletionResponse buf])"
proof -
  let ?p4 = "writeControl (refreshed p env)
               [0x22, 0x21, 0xA9, 0x00, 0x04, 0x00, 0x0A, 0x00, 0x30, 0x00, 0x65, 0xFF]"
  have n4: "notifications ?p4 = []" using assms(5) by (simp add: writeControl_fields)
  have c4: "connected ?p4" using assms(1) by (simp add: writeControl_fields refreshed_fields)
  have l4: "logged ?p4 = logged p" by (simp add: writeControl_fields refreshed_fields)
  have t: "TestPrintCard p env = transferImageData ?p4 testImage (transfer env)"
    using assms(2,3,4,6,7) by (simp add: TestPrintCard_refreshed Let_def recv_empty [OF n4])
  show ?thesis
    unfolding t transferImageData_flush_failure [OF c4 n4 assms(8,9)] l4 ..
qed

text \<open>
  C3. When the flush exchange fails, \<open>flushData\<close> returns the typed error: a completion
  timeout when nothing arrives, an unexpected completion response when the notification
  received is shorter than 3 bytes or its command id is not 0xAA. \<open>transferImageData\<close>
  hands that error to \<^verbatim>\<open>ifErrNotNil\<close>, where it is logged after the failed chunk writes,
  and returns no error. So \<open>TestPrintCard\<close> never returns a completion timeout or an
  unexpected completion response: it reports success exactly when the error and busy
  checks pass, the print request is written, and the notification received for it has at
  least 7 bytes, command id 0xA9 and a zero byte at offset 6, whatever the flush exchange
  does afterwards. In particular, on a connected session whose print request is accepted
  and whose flush times out or is answered by something other than print-complete,
  \<open>TestPrintCard\<close> returns no error and the flush error is the last entry of the log.
  Failed chunk writes are logged as well and do not change what is written to the
  transport.
\<close>

theorem flush_failure_is_logged_not_returned:
  "fst (transferImageData p imageData env) = None
   \<and> fst (TestPrintCard p penv) \<noteq> Some PrintCompletionTimeout
   \<and> fst (TestPrintCard p penv) \<noteq> Some (UnexpectedCompletionResponse b)
   \<and> (connected q \<and> notifications q = [] \<and> \<not> write_err x \<and> arrival x = None \<longrightarrow>
        fst (flushData q x) = Some PrintCompletionTimeout)
   \<and> (connected q \<and> notifications q = [] \<and> \<not> write_err x \<and> arrival x = Some buf
        \<and> (length buf < 3 \<or> buf ! 2 \<noteq> 0xAA) \<longrightarrow>
        fst (flushData q x) = Some (UnexpectedCompletionResponse buf))
   \<and> (connected p \<and> notifications p = [] \<and> during_transfer env = []
        \<and> \<not> write_err (flush_x env) \<and> arrival (flush_x env) = None \<longrightarrow>
        logged (snd (transferImageData p imageData env)) =
          logged p
          @ map ChunkWriteFailed
              (filter (chunk_err env) [0..<chunk_count (max (length imageData) 4320) 0])
          @ [PrintCompletionTimeout])
   \<and> (connected p \<and> notifications p = [] \<and> during_transfer env = []
        \<and> \<not> write_err (flush_x env) \<and> arrival (flush_x env) = Some buf
        \<and> (length buf < 3 \<or> buf ! 2 \<noteq> 0xAA) \<longrightarrow>
        logged (snd (transferImageData p imageData env)) =
          logged p
          @ map ChunkWriteFailed
              (filter (chunk_err env) [0..<chunk_count (max (length imageData) 4320) 0])
          @ [UnexpectedCompletionResponse buf])
   \<and> wire (snd (transferImageData p imageData env)) =
       wire (snd (transferImageData p imageData (env\<lparr>chunk_err := (\<lambda>k. False)\<rparr>)))
   \<and> (fst (TestPrintCard p penv) = None) =
       (ErrorFlag (lastStatus (refreshed p penv)) = 0
        \<and> Status (lastStatus (refreshed p penv)) = 0
        \<and> \<not> write_err (print_x penv)
        \<and> (\<exists>reply. fst (recv (writeControl (refreshed p penv)
                               [0x22, 0x21, 0xA9, 0x00, 0x04, 0x00, 0x0A, 0x00, 0x30, 0x00,
                                0x65, 0xFF])
                             (arrival (print_x penv))) = Some reply
                     \<and> 7 \<le> length reply \<and> reply ! 2 = 0xA9 \<and> reply ! 6 = 0x00))
   \<and> (connected p
        \<and> ErrorFlag (lastStatus (refreshed p penv)) = 0
        \<and> Status (lastStatus (refreshed p penv)) = 0
        \<and> \<not> write_err (print_x penv)
        \<and> notifications (refreshed p penv) = []
        \<and> arrival (print_x penv) = Some r
        \<and> 7 \<le> length r \<and> r ! 2 = 0xA9 \<and> r ! 6 = 0x00
        \<and> during_transfer (transfer penv) = []
        \<and> \<not> write_err (flush_x (transfer penv))
        \<and> arrival (flush_x (transfer penv)) = None \<longrightarrow>
        fst (TestPrintCard p penv) = None
        \<and> logged (snd (TestPrintCard p penv)) =
            logged p
            @ map ChunkWriteFailed
                (filter (chunk_err (transfer penv))
                   [0..<chunk_count (max (length testImage) 4320) 0])
            @ [PrintCompletionTimeout])
   \<and> (connected p
        \<and> ErrorFlag (lastStatus (refreshed p penv)) = 0
        \<and> Status (lastStatus (refreshed p penv)) = 0
        \<and> \<not> write_err (print_x penv)
        \<and> notifications (refreshed p penv) = []
        \<and> arrival (print_x penv) = Some r
        \<and> 7 \<le> length r \<and> r ! 2 = 0xA9 \<and> r ! 6 = 0x00
        \<and> during_transfer (transfer penv) = []
        \<and> \<not> write_err (flush_x (transfer penv))
        \<and> arrival (flush_x (transfer penv)) = Some buf
        \<and> (length buf < 3 \<or> buf ! 2 \<noteq> 0xAA) \<longrightarrow>
        fst (TestPrintCard p penv) = None
        \<and> logged (snd (TestPrintCard p penv)) =
            logged p
            @ map ChunkWriteFailed
                (filter (chunk_err (transfer penv))
                   [0..<chunk_count (max (length testImage) 4320) 0])
            @ [UnexpectedCompletionResponse buf])"
proof -
  have c1: "fst (transferImageData p imageData env) = None"
    by (rule transferImageData_result)
  have c2: "fst (TestPrintCard p penv) \<noteq> Some PrintCompletionTimeout"
    by (rule TestPrintCard_never_flush_error)
  have c3: "fst (TestPrintCard p penv) \<noteq> Some (UnexpectedCompletionResponse b)"
    by (rule TestPrintCard_never_flush_error)
  have c4: "connected q \<and> notifications q = [] \<and> \<not> write_err x \<and> arrival x = None \<longrightarrow>
        fst (flushData q x) = Some PrintCompletionTimeout"
    by (simp add: flushData_result)
  have c5: "connected q \<and> notifications q = [] \<and> \<not> write_err x \<and> arrival x = Some buf
        \<and> (length buf < 3 \<or> buf ! 2 \<noteq> 0xAA) \<longrightarrow>
        fst (flushData q x) = Some (UnexpectedCompletionResponse buf)"
    by (auto simp add: flushData_result)
  have c6: "connected p \<and> notifications p = [] \<and> during_transfer env = []
        \<and> \<not> write_err (flush_x env) \<and> arrival (flush_x env) = None \<longrightarrow>
        logged (snd (transferImageData p imageData env)) =
          logged p
          @ map ChunkWriteFailed
              (filter (chunk_err env) [0..<chunk_count (max (length imageData) 4320) 0])
          @ [PrintCompletionTimeout]"
    by (simp add: transferImageData_flush_failure)
  have c7: "connected p \<and> notifications p = [] \<and> during_transfer env = []
        \<and> \<not> write_err (flush_x env) \<and> arrival (flush_x env) = Some buf
        \<and> (length buf < 3 \<or> buf ! 2 \<noteq> 0xAA) \<longrightarrow>
        logged (snd (transferImageData p imageData env)) =
          logged p
          @ map ChunkWriteFailed
              (filter (chunk_err env) [0..<chunk_count (max (length imageData) 4320) 0])
          @ [UnexpectedCompletionResponse buf]"
    by (auto simp add: transferImageData_flush_failure)
  have c8: "wire (snd (transferImageData p imageData env)) =
       wire (snd (transferImageData p imageData (env\<lparr>chunk_err := (\<lambda>k. False)\<rparr>)))"
    by (simp only: transferImageData_wire)
  note c9 = TestPrintCard_success_iff [of p penv]
  have acc: "fst (TestPrintCard p penv) = None"
    if "ErrorFlag (lastStatus (refreshed p penv)) = 0"
      "Status (lastStatus (refreshed p penv)) = 0" "\<not> write_err (print_x penv)"
      "notifications (refreshed p penv) = []" "arrival (print_x penv) = Some r"
      "7 \<le> length r \<and> r ! 2 = 0xA9 \<and> r ! 6 = 0x00"
    unfolding c9 using that by (simp add: recv_empty writeControl_fields)
  have c10: "connected p
        \<and> ErrorFlag (lastStatus (refreshed p penv)) = 0
        \<and> Status (lastStatus (refreshed p penv)) = 0
        \<and> \<not> write_err (print_x penv)
        \<and> notifications (refreshed p penv) = []
        \<and> arrival (print_x penv) = Some r
        \<and> 7 \<le> length r \<and> r ! 2 = 0xA9 \<and> r ! 6 = 0x00
        \<and> during_transfer (transfer penv) = []
        \<and> \<not> write_err (flush_x (transfer penv))
        \<and> arrival (flush_x (transfer penv)) = None \<longrightarrow>
        fst (TestPrintCard p penv) = None
        \<and> logged (snd (TestPrintCard p penv)) =
            logged p
            @ map ChunkWriteFailed
                (filter (chunk_err (transfer penv))
                   [0..<chunk_count (max (length testImage) 4320) 0])
            @ [PrintCompletionTimeout]"
  proof (intro impI conjI)
    assume h: "connected p
        \<and> ErrorFlag (lastStatus (refreshed p penv)) = 0
        \<and> Status (lastStatus (refreshed p penv)) = 0
        \<and> \<not> write_err (print_x penv)
        \<and> notifications (refreshed p penv) = []
        \<and> arrival (print_x penv) = Some r
        \<and> 7 \<le> length r \<and> r ! 2 = 0xA9 \<and> r ! 6 = 0x00
        \<and> during_transfer (transfer penv) = []
        \<and> \<not> write_err (flush_x (transfer penv))
        \<and> arrival (flush_x (transfer penv)) = None"
    then show "fst (TestPrintCard p penv) = None" by (intro acc) simp_all
    from h show "logged (snd (TestPrintCard p penv)) =
            logged p
            @ map ChunkWriteFailed
                (filter (chunk_err (transfer penv))
                   [0..<chunk_count (max (length testImage) 4320) 0])
            @ [PrintCompletionTimeout]"
      by (subst TestPrintCard_accepted_logged [where r = r]) simp_all
  qed
  have c11: "connected p
        \<and> ErrorFlag (lastStatus (refreshed p penv)) = 0
        \<and> Status (lastStatus (refreshed p penv)) = 0
        \<and> \<not> write_err (print_x penv)
        \<and> notifications (refreshed p penv) = []
        \<and> arrival (print_x penv) = Some r
        \<and> 7 \<le> length r \<and> r ! 2 = 0xA9 \<and> r ! 6 = 0x00
        \<and> during_transfer (transfer penv) = []
        \<and> \<not> write_err (flush_x (transfer penv))
        \<and> arrival (flush_x (transfer penv)) = Some buf
        \<and> (length buf < 3 \<or> buf ! 2 \<noteq> 0xAA) \<longrightarrow>
        fst (TestPrintCard p penv) = None
        \<and> logged (snd (TestPrintCard p penv)) =
            logged p
            @ map ChunkWriteFailed
                (filter (chunk_err (transfer penv))
                   [0..<chunk_count (max (length testImage) 4320) 0])
            @ [UnexpectedCompletionResponse buf]"
  proof (intro impI conjI)
    assume h: "connected p
        \<and> ErrorFlag (lastStatus (refreshed p penv)) = 0
        \<and> Status (lastStatus (refreshed p penv)) = 0
        \<and> \<not> write_err (print_x penv)
        \<and> notifications (refreshed p penv) = []
        \<and> arrival (print_x penv) = Some r
        \<and> 7 \<le> length r \<and> r ! 2 = 0xA9 \<and> r ! 6 = 0x00
        \<and> during_transfer (transfer penv) = []
        \<and> \<not> write_err (flush_x (transfer penv))
        \<and> arrival (flush_x (transfer penv)) = Some buf
        \<and> (length buf < 3 \<or> buf ! 2 \<noteq> 0xAA)"
    then show "fst (TestPrintCard p penv) = None" by (intro acc) simp_all
    from h show "logged (snd (TestPrintCard p penv)) =
            logged p
            @ map ChunkWriteFailed
                (filter (chunk_err (transfer penv))
                   [0..<chunk_count (max (length testImage) 4320) 0])
            @ [UnexpectedCompletionResponse buf]"
      by (subst TestPrintCard_accepted_logged [where r = r]) auto
  qed
  from c1 c2 c3 c4 c5 c6 c7 c8 c9 c10 c11 show ?thesis
    by (intro conjI)
qed

text \<open>
  A flush that times out and a flush answered by a status reply, on their own, inside a
  transfer, and inside a print whose request was accepted.
\<close>

theorem flush_failure_is_logged_not_returned_witness:
  "connected connected_session \<and> notifications connected_session = []
   \<and> \<not> write_err silent \<and> arrival silent = None
   \<and> fst (flushData connected_session silent) = Some PrintCompletionTimeout
   \<and> arrival (answering status_reply_ok) = Some status_reply_ok
   \<and> status_reply_ok ! 2 \<noteq> 0xAA
   \<and> fst (flushData connected_session (answering status_reply_ok))
       = Some (UnexpectedCompletionResponse status_reply_ok)
   \<and> during_transfer silent_transfer = []
   \<and> fst (transferImageData connected_session testImage silent_transfer) = None
   \<and> logged (snd (transferImageData connected_session testImage silent_transfer))
       = [PrintCompletionTimeout]
   \<and> fst (transferImageData connected_session testImage
            (silent_transfer\<lparr>flush_x := answering status_reply_ok\<rparr>)) = None
   \<and> logged (snd (transferImageData connected_session testImage
            (silent_transfer\<lparr>flush_x := answering status_reply_ok\<rparr>)))
       = [UnexpectedCompletionResponse status_reply_ok]
   \<and> ErrorFlag (lastStatus (refreshed connected_session
          (silent_print\<lparr>status_x := answering status_reply_ok,
                        print_x := answering print_accepted\<rparr>))) = 0
   \<and> Status (lastStatus (refreshed connected_session
          (silent_print\<lparr>status_x := answering status_reply_ok,
                        print_x := answering print_accepted\<rparr>))) = 0
   \<and> notifications (refreshed connected_session
          (silent_print\<lparr>status_x := answering status_reply_ok,
                        print_x := answering print_accepted\<rparr>)) = []
   \<and> 7 \<le> length print_accepted \<and> print_accepted ! 2 = 0xA9 \<and> print_accepted ! 6 = 0x00
   \<and> fst (TestPrintCard connected_session
          (silent_print\<lparr>status_x := answering status_reply_ok,
                        print_x := answering print_accepted\<rparr>)) = None
   \<and> logged (snd (TestPrintCard connected_session
          (silent_print\<lparr>status_x := answering status_reply_ok,
                        print_x := answering print_accepted\<rparr>))) = [PrintCompletionTimeout]
   \<and> fst (TestPrintCard connected_session
          (silent_print\<lparr>status_x := answering status_reply_ok,
                        print_x := answering print_accepted,
                        transfer := silent_transfer\<lparr>flush_x := answering status_reply_ok\<rparr>\<rparr>)) = None
   \<and> logged (snd (TestPrintCard connected_session
          (silent_print\<lparr>status_x := answering status_reply_ok,
                        print_x := answering print_accepted,
                        transfer := silent_transfer\<lparr>flush_x := answering status_reply_ok\<rparr>\<rparr>)))
       = [UnexpectedCompletionResponse status_reply_ok]"
proof -
  let ?e1 = "silent_print\<lparr>status_x := answering status_reply_ok,
                        print_x := answering print_accepted\<rparr>"
  let ?e2 = "silent_print\<lparr>status_x := answering status_reply_ok,
                        print_x := answering print_accepted,
                        transfer := silent_transfer\<lparr>flush_x := answering status_reply_ok\<rparr>\<rparr>"
  note c = connected_session_fields(1,2,5)
  have k: "status_reply_ok ! 2 \<noteq> 0xAA" by (simp add: status_reply_ok_def)
  have l: "13 \<le> length status_reply_ok" "status_reply_ok ! 12 = 0" "status_reply_ok ! 6 = 0"
    by (simp_all add: status_reply_ok_def)
  have pa: "7 \<le> length print_accepted" "print_accepted ! 2 = 0xA9" "print_accepted ! 6 = 0x00"
    by (simp_all add: print_accepted_def)
  have s1: "status_x ?e1 = answering status_reply_ok" "print_x ?e1 = answering print_accepted"
      "transfer ?e1 = silent_transfer"
    by (simp_all add: silent_print_fields)
  have s2: "status_x ?e2 = answering status_reply_ok" "print_x ?e2 = answering print_accepted"
      "transfer ?e2 = silent_transfer\<lparr>flush_x := answering status_reply_ok\<rparr>"
    by (simp_all add: silent_print_fields)
  have f1: "ErrorFlag (lastStatus (refreshed connected_session ?e1)) = 0"
      "Status (lastStatus (refreshed connected_session ?e1)) = 0"
    using refreshed_status_reply(1,2) [OF c(1,2) s1(1) framed_ok(1) l(1)] l by simp_all
  have f2: "ErrorFlag (lastStatus (refreshed connected_session ?e2)) = 0"
      "Status (lastStatus (refreshed connected_session ?e2)) = 0"
    using refreshed_status_reply(1,2) [OF c(1,2) s2(1) framed_ok(1) l(1)] l by simp_all
  have n1: "notifications (refreshed connected_session ?e1) = []"
    by (rule print_accepted_flow(2) [OF c(1,2) s1(1) framed_ok(1) l s1(2)])
  have n2: "notifications (refreshed connected_session ?e2) = []"
    by (rule print_accepted_flow(2) [OF c(1,2) s2(1) framed_ok(1) l s2(2)])
  note t1 = flush_failure_is_logged_not_returned
    [of connected_session testImage silent_transfer ?e1 "[]"
        connected_session silent status_reply_ok print_accepted]
  note t2 = flush_failure_is_logged_not_returned
    [of connected_session testImage "silent_transfer\<lparr>flush_x := answering status_reply_ok\<rparr>"
        ?e2 "[]" connected_session "answering status_reply_ok" status_reply_ok print_accepted]
  have a1: "fst (flushData connected_session silent) = Some PrintCompletionTimeout"
    using t1 c by (simp add: silent_print_fields)
  have a2: "fst (flushData connected_session (answering status_reply_ok))
       = Some (UnexpectedCompletionResponse status_reply_ok)"
    using t2 c k by (simp add: answering_fields)
  have a3: "logged (snd (transferImageData connected_session testImage silent_transfer))
       = [PrintCompletionTimeout]"
    using t1 c by (simp add: silent_print_fields)
  have a4: "logged (snd (transferImageData connected_session testImage
            (silent_transfer\<lparr>flush_x := answering status_reply_ok\<rparr>)))
       = [UnexpectedCompletionResponse status_reply_ok]"
    using t2 c k by (simp add: silent_print_fields answering_fields)
  have h1: "connected connected_session
        \<and> ErrorFlag (lastStatus (refreshed connected_session ?e1)) = 0
        \<and> Status (lastStatus (refreshed connected_session ?e1)) = 0
        \<and> \<not> write_err (print_x ?e1)
        \<and> notifications (refreshed connected_session ?e1) = []
        \<and> arrival (print_x ?e1) = Some print_accepted
        \<and> 7 \<le> length print_accepted \<and> print_accepted ! 2 = 0xA9 \<and> print_accepted ! 6 = 0x00
        \<and> during_transfer (transfer ?e1) = []
        \<and> \<not> write_err (flush_x (transfer ?e1))
        \<and> arrival (flush_x (transfer ?e1)) = None"
    using c(1) f1 n1 pa by (simp add: s1 answering_fields silent_print_fields)
  have h2: "connected connected_session
        \<and> ErrorFlag (lastStatus (refreshed connected_session ?e2)) = 0
        \<and> Status (lastStatus (refreshed connected_session ?e2)) = 0
        \<and> \<not> write_err (print_x ?e2)
        \<and> notifications (refreshed connected_session ?e2) = []
        \<and> arrival (print_x ?e2) = Some print_accepted
        \<and> 7 \<le> length print_accepted \<and> print_accepted ! 2 = 0xA9 \<and> print_accepted ! 6 = 0x00
        \<and> during_transfer (transfer ?e2) = []
        \<and> \<not> write_err (flush_x (transfer ?e2))
        \<and> arrival (flush_x (transfer ?e2)) = Some status_reply_ok
        \<and> (length status_reply_ok < 3 \<or> status_reply_ok ! 2 \<noteq> 0xAA)"
    using c(1) f2 n2 pa k by (simp add: s2 answering_fields silent_print_fields)
  have g1: "fst (TestPrintCard connected_session ?e1) = None
      \<and> logged (snd (TestPrintCard connected_session ?e1)) = [PrintCompletionTimeout]"
    using t1 h1 c(3) by (simp add: s1 silent_print_fields)
  have g2: "fst (TestPrintCard connected_session ?e2) = None
      \<and> logged (snd (TestPrintCard connected_session ?e2))
          = [UnexpectedCompletionResponse status_reply_ok]"
    using t2 h2 c(3) by (simp add: s2 silent_print_fields)
  note b1 = t1 [THEN conjunct1]
  note b2 = t2 [THEN conjunct1]
  show ?thesis
    using a1 a2 a3 a4 b1 b2 c k f1 n1 pa g1 g2
    by (simp add: silent_print_fields answering_fields)
qed

text \<open>
  A print whose request is accepted and whose flush is never answered, or is answered by
  a status reply, reports success; the flush error is only in the log.
\<close>

theorem print_reports_success_when_flush_times_out:
  "fst (TestPrintCard connected_session
          (silent_print\<lparr>status_x := answering status_reply_ok,
                        print_x := answering print_accepted\<rparr>)) = None
   \<and> logged (snd (TestPrintCard connected_session
          (silent_print\<lparr>status_x := answering status_reply_ok,
                        print_x := answering print_accepted\<rparr>))) = [PrintCompletionTimeout]
   \<and> fst (TestPrintCard connected_session
          (silent_print\<lparr>status_x := answering status_reply_ok,
                        print_x := answering print_accepted,
                        transfer := silent_transfer\<lparr>flush_x := answering status_reply_ok\<rparr>\<rparr>)) = None
   \<and> logged (snd (TestPrintCard connected_session
          (silent_print\<lparr>status_x := answering status_reply_ok,
                        print_x := answering print_accepted,
                        transfer := silent_transfer\<lparr>flush_x := answering status_reply_ok\<rparr>\<rparr>)))
       = [UnexpectedCompletionResponse status_reply_ok]"
proof -
  let ?e1 = "silent_print\<lparr>status_x := answering status_reply_ok,
                        print_x := answering print_accepted\<rparr>"
  let ?e2 = "silent_print\<lparr>status_x := answering status_reply_ok,
                        print_x := answering print_accepted,
                        transfer := silent_transfer\<lparr>flush_x := answering status_reply_ok\<rparr>\<rparr>"
  note c = connected_session_fields(1,2)
  have l: "13 \<le> length status_reply_ok" "status_reply_ok ! 12 = 0" "status_reply_ok ! 6 = 0"
    by (simp_all add: status_reply_ok_def)
  have k: "\<not> (3 \<le> length status_reply_ok \<and> status_reply_ok ! 2 = 0xAA)"
    by (simp add: status_reply_ok_def)
  have f1: "TestPrintCard connected_session ?e1 =
      transferImageData
        (writeControl (refreshed connected_session ?e1)
           [0x22, 0x21, 0xA9, 0x00, 0x04, 0x00, 0x0A, 0x00, 0x30, 0x00, 0x65, 0xFF])
        testImage silent_transfer"
    and n1: "notifications (refreshed connected_session ?e1) = []"
    using print_accepted_flow [OF c _ framed_ok(1) l, of ?e1]
    by (simp_all add: silent_print_fields)
  have f2: "TestPrintCard connected_session ?e2 =
      transferImageData
        (writeControl (refreshed connected_session ?e2)
           [0x22, 0x21, 0xA9, 0x00, 0x04, 0x00, 0x0A, 0x00, 0x30, 0x00, 0x65, 0xFF])
        testImage (silent_transfer\<lparr>flush_x := answering status_reply_ok\<rparr>)"
    and n2: "notifications (refreshed connected_session ?e2) = []"
    using print_accepted_flow [OF c _ framed_ok(1) l, of ?e2]
    by (simp_all add: silent_print_fields)
  have g1: "logged (snd (TestPrintCard connected_session ?e1)) = [PrintCompletionTimeout]"
    unfolding f1
    by (subst transferImageData_flush_failure)
      (simp_all add: writeControl_fields refreshed_fields c n1 silent_print_fields
        connected_session_fields)
  have g2: "logged (snd (TestPrintCard connected_session ?e2))
       = [UnexpectedCompletionResponse status_reply_ok]"
    unfolding f2
    by (subst transferImageData_flush_failure)
      (simp_all add: writeControl_fields refreshed_fields c n2 silent_print_fields
        connected_session_fields answering_fields k)
  show ?thesis
    using g1 g2 by (simp add: f1 f2 transferImageData_result)
qed

section \<open>Connection checks and lifecycle\<close>

text \<open>
  C2. \<open>UpdateStatus\<close>, \<open>setIntensity\<close> and \<open>flushData\<close> refuse a session that is not
  connected with \<open>NotConnected\<close> and leave it untouched. \<open>TestPrintCard\<close> has no such
  check: it never returns \<open>NotConnected\<close>, and on a freshly created session it writes the
  print request to the control channel and then times out waiting for the reply.
\<close>

theorem print_lacks_connection_check:
  "fst (TestPrintCard p env) \<noteq> Some NotConnected
   \<and> \<not> connected (NewCatPrinter False)
   \<and> TestPrintCard (NewCatPrinter False) silent_print =
       (Some PrintRequestTimeout,
        (NewCatPrinter False)
          \<lparr>wire := [ControlWrite [0x22, 0x21, 0xA9, 0x00, 0x04, 0x00, 0x0A, 0x00, 0x30, 0x00,
                                  0x65, 0xFF]]\<rparr>)
   \<and> UpdateStatus (NewCatPrinter False) silent = (Some NotConnected, NewCatPrinter False)
   \<and> setIntensity (NewCatPrinter False) 93 False = (Some NotConnected, NewCatPrinter False)
   \<and> flushData (NewCatPrinter False) silent = (Some NotConnected, NewCatPrinter False)"
proof -
  have r: "refreshed (NewCatPrinter False) silent_print = NewCatPrinter False"
    by (simp add: refreshed_def UpdateStatus_def setIntensity_def drain_def NewCatPrinter_fields)
  have t: "TestPrintCard (NewCatPrinter False) silent_print =
       (Some PrintRequestTimeout,
        (NewCatPrinter False)
          \<lparr>wire := [ControlWrite [0x22, 0x21, 0xA9, 0x00, 0x04, 0x00, 0x0A, 0x00, 0x30, 0x00,
                                  0x65, 0xFF]]\<rparr>)"
    unfolding TestPrintCard_refreshed r
    by (simp add: Let_def NewCatPrinter_fields silent_print_fields recv_def writeControl_def)
  show ?thesis
    using t TestPrintCard_never_flush_error(3) [of p env]
    by (simp add: UpdateStatus_def setIntensity_def flushData_def NewCatPrinter_fields)
qed

lemma deliver_fields:
  "connected (deliver p b) = connected p"
  "wire (deliver p b) = wire p"
  "logged (deliver p b) = logged p"
  "lastStatus (deliver p b) = lastStatus p"
  by (simp_all add: deliver_def)

lemma UpdateStatus_stale:
  assumes "connected p" "notifications p = s1 # s2 # rest" "\<not> write_err x"
  shows "fst (UpdateStatus p x) = fst (parseStatusResponse p s2)"
    and "lastStatus (snd (UpdateStatus p x)) = lastStatus (snd (parseStatusResponse p s2))"
proof -
  have d: "notifications (drain p) = s2 # rest"
    using assms(2) by (simp add: drain_def)
  have r: "recv (writeControl (drain p) pkt) a =
      (Some s2, (writeControl (drain p) pkt)\<lparr>notifications := rest\<rparr>)" for pkt a
    using d by (simp add: recv_def writeControl_def)
  have u: "UpdateStatus p x = parseStatusResponse
             ((writeControl (drain p) [Preamble1, Preamble2, CmdGetStatus, 0x00, 0x01, 0x00, 0x00,
                calculateCRC8 [0x00], Footer])\<lparr>notifications := rest\<rparr>) s2"
    using assms by (simp add: UpdateStatus_def Let_def r)
  show "fst (UpdateStatus p x) = fst (parseStatusResponse p s2)"
    unfolding u by (simp add: parseStatusResponse_def Let_def)
  show "lastStatus (snd (UpdateStatus p x)) = lastStatus (snd (parseStatusResponse p s2))"
    unfolding u by (simp add: parseStatusResponse_def Let_def writeControl_def drain_fields)
qed

lemma Connect_success_connected: "fst (Connect p env) = None \<Longrightarrow> connected (snd (Connect p env))"
  by (simp add: Connect_def Let_def split_beta UpdateStatus_connected ifErrNotNil_fields
      split: if_splits)

lemma Disconnect_disconnected: "\<not> connected (snd (Disconnect p derr))"
  by (simp add: Disconnect_def Let_def)

text \<open>
  C10. \<open>Connect\<close> on a connected session returns no error and the session unchanged: no
  scan, no other call on the transport, no field modified. \<open>Disconnect\<close> on a session
  that is not connected returns no error and the session unchanged. Hence a second
  \<open>Connect\<close> after a successful one, and a second \<open>Disconnect\<close> after any one, change
  nothing.
\<close>

theorem lifecycle_idempotent:
  "(connected p \<longrightarrow> Connect p env = (None, p))
   \<and> (\<not> connected p \<longrightarrow> Disconnect p derr = (None, p))
   \<and> (fst (Connect p env) = None \<longrightarrow>
        Connect (snd (Connect p env)) env' = (None, snd (Connect p env)))
   \<and> Disconnect (snd (Disconnect p derr)) derr' = (None, snd (Disconnect p derr))"
proof (intro conjI impI)
  show "Connect p env = (None, p)" if "connected p"
    using that by (simp add: Connect_def)
  show "Disconnect p derr = (None, p)" if "\<not> connected p"
    using that by (simp add: Disconnect_def)
  show "Connect (snd (Connect p env)) env' = (None, snd (Connect p env))"
    if "fst (Connect p env) = None"
    using Connect_success_connected [OF that] by (simp add: Connect_def)
  show "Disconnect (snd (Disconnect p derr)) derr' = (None, snd (Disconnect p derr))"
    using Disconnect_disconnected [of p derr] by (simp add: Disconnect_def [of "snd (Disconnect p derr)"])
qed

text \<open>The connected session of the examples, and a freshly created one.\<close>

theorem lifecycle_idempotent_witness:
  "connected connected_session
   \<and> Connect connected_session good_connect = (None, connected_session)
   \<and> \<not> connected (NewCatPrinter False)
   \<and> Disconnect (NewCatPrinter False) False = (None, NewCatPrinter False)
   \<and> fst (Connect (NewCatPrinter False) good_connect) = None
   \<and> Connect (snd (Connect (NewCatPrinter False) good_connect)) good_connect
       = (None, snd (Connect (NewCatPrinter False) good_connect))
   \<and> Disconnect (snd (Disconnect connected_session False)) False
       = (None, snd (Disconnect connected_session False))"
proof -
  have f: "fst (Connect (NewCatPrinter False) good_connect) = None"
    by (simp add: Connect_def good_connect_def NewCatPrinter_def ifErrNotNil_def Let_def
        split_beta)
  show ?thesis
    using lifecycle_idempotent [of connected_session good_connect False good_connect False]
      lifecycle_idempotent [of "NewCatPrinter False" good_connect False good_connect False]
      f connected_session_fields(1) NewCatPrinter_fields(1)
    by simp
qed

section \<open>Packet layout\<close>

lemma spec_encode_fields:
  "length (spec_encode c payload) = length payload + 8"
  "spec_encode c payload ! 0 = 0x22"
  "spec_encode c payload ! 1 = 0x21"
  "spec_encode c payload ! 2 = c"
  "spec_encode c payload ! 3 = 0x00"
  "spec_encode c payload ! 4 = word_of_nat (length payload mod 256)"
  "spec_encode c payload ! 5 = word_of_nat (length payload div 256)"
  "take (length payload) (drop 6 (spec_encode c payload)) = payload"
  by (simp_all add: spec_encode_def)

lemma spec_encode_declared_length:
  assumes "length payload \<le> 65535"
  shows "uint (spec_encode c payload ! 4) + 256 * uint (spec_encode c payload ! 5)
           = int (length payload)"
proof -
  have lo: "uint (word_of_nat (length payload mod 256) :: byte) = int (length payload mod 256)"
    by (simp add: unsigned_of_nat take_bit_eq_mod)
  from assms have "length payload div 256 < 256" by simp
  then have hi: "uint (word_of_nat (length payload div 256) :: byte) = int (length payload div 256)"
    by (simp add: unsigned_of_nat take_bit_eq_mod)
  have "length payload mod 256 + 256 * (length payload div 256) = length payload"
    by simp
  then have "int (length payload mod 256 + 256 * (length payload div 256)) = int (length payload)"
    by (rule arg_cong)
  then show ?thesis
    unfolding spec_encode_fields lo hi by (simp only: of_nat_add of_nat_mult of_nat_numeral)
qed

lemma spec_encode_status_framed:
  assumes "1 \<le> length payload" "length payload \<le> 65535"
  shows "framed_status_reply (spec_encode CmdGetStatus payload)"
  using assms spec_encode_declared_length [OF assms(2), of CmdGetStatus]
  by (simp add: framed_status_reply_def spec_encode_fields consts_defs
      spec_encode_fields(3) [unfolded One_nat_def])

lemma parse_spec_encode:
  assumes "1 \<le> length payload" "length payload \<le> 65535"
  shows "fst (parseStatusResponse p (spec_encode CmdGetStatus payload)) =
           (if 5 \<le> length payload then None
            else Some (ShortStatusPayload (length payload + 8)))"
proof (cases "5 \<le> length payload")
  case True
  then have "13 \<le> length (spec_encode CmdGetStatus payload)"
    by (simp add: spec_encode_fields)
  from parse_framed(1) [OF spec_encode_status_framed [OF assms] this, of p] True
  show ?thesis by simp
next
  case False
  then have "length (spec_encode CmdGetStatus payload) < 13"
    by (simp add: spec_encode_fields)
  from parse_framed(2) [OF spec_encode_status_framed [OF assms] this, of p] False
  show ?thesis by (simp add: spec_encode_fields)
qed

lemma spec_encode_packets:
  "spec_encode CmdGetStatus [0x00] = [0x22, 0x21, 0xA1, 0x00, 0x01, 0x00, 0x00, 0x00, 0xFF]"
  "spec_encode CmdFlushData [0x00] = [0x22, 0x21, 0xAD, 0x00, 0x01, 0x00, 0x00, 0x00, 0xFF]"
  "spec_encode CmdPrintRequest [0x0A, 0x00, 0x30, 0x00] =
     [0x22, 0x21, 0xA9, 0x00, 0x04, 0x00, 0x0A, 0x00, 0x30, 0x00, 0x65, 0xFF]"
  "spec_encode CmdSetIntensity [b] = [0x22, 0x21, 0xA2, 0x00, 0x01, 0x00, b, calculateCRC8 [b], 0xFF]"
  by (simp_all add: spec_encode_def crc_zero crc_print_request consts_defs)

lemma setIntensity_wire:
  "connected p \<Longrightarrow> 0 \<le> i \<Longrightarrow> i \<le> 255 \<Longrightarrow>
   wire (snd (setIntensity p i w)) =
     wire p @ [ControlWrite (spec_encode CmdSetIntensity [word_of_int i])]"
  by (simp add: setIntensity_def Let_def writeControl_def spec_encode_def consts_defs)

lemma TestPrintCard_print_request_wire:
  assumes "ErrorFlag (lastStatus (refreshed p env)) = 0" "Status (lastStatus (refreshed p env)) = 0"
  shows "\<exists>rest. wire (snd (TestPrintCard p env)) =
           wire (refreshed p env)
           @ ControlWrite [0x22, 0x21, 0xA9, 0x00, 0x04, 0x00, 0x0A, 0x00, 0x30, 0x00, 0x65, 0xFF]
           # rest"
proof -
  let ?pkt = "[0x22, 0x21, 0xA9, 0x00, 0x04, 0x00, 0x0A, 0x00, 0x30, 0x00, 0x65, 0xFF] :: byte list"
  let ?p4 = "writeControl (refreshed p env) ?pkt"
  obtain r p5 where r: "recv ?p4 (arrival (print_x env)) = (r, p5)"
    by (cases "recv ?p4 (arrival (print_x env))")
  have w5: "wire p5 = wire (refreshed p env) @ [ControlWrite ?pkt]"
    using recv_fields(2) [of ?p4 "arrival (print_x env)"] r by (simp add: writeControl_fields)
  have "wire (snd (TestPrintCard p env)) = wire p5
        \<or> wire (snd (TestPrintCard p env)) = wire (snd (transferImageData p5 testImage (transfer env)))"
    using assms r
    by (simp add: TestPrintCard_refreshed Let_def writeControl_fields w5 split: option.splits)
  then show ?thesis
  proof
    assume "wire (snd (TestPrintCard p env)) = wire p5"
    with w5 show ?thesis by simp
  next
    assume "wire (snd (TestPrintCard p env)) = wire (snd (transferImageData p5 testImage (transfer env)))"
    then show ?thesis
      unfolding transferImageData_wire Let_def w5 by simp
  qed
qed

text \<open>
  C6. Every packet the code builds has the specified layout: the status query is
  \<open>spec_encode\<close> of command 0xA1 and payload 00, the set-intensity packet of command 0xA2
  and the intensity byte, the flush packet of command 0xAD and payload 00, and the print
  request of command 0xA9 and payload 0A 00 30 00. For a payload of 1 to 65535 bytes the
  packet with the status command id passes the framing checks of \<open>parseStatusResponse\<close>
  (which then succeeds when the packet has at least 13 bytes and reports a short status
  payload otherwise), and for any command id the length the parser computes from offsets
  4-5 is the payload length, the byte at offset 2 is the command id, and the payload
  bytes follow at offset 6.
\<close>

theorem packets_follow_the_specified_layout:
  "(connected p \<longrightarrow>
      wire (snd (UpdateStatus p x)) = wire p @ [ControlWrite (spec_encode CmdGetStatus [0x00])])
   \<and> (connected p \<and> 0 \<le> i \<and> i \<le> 255 \<longrightarrow>
      wire (snd (setIntensity p i w)) =
        wire p @ [ControlWrite (spec_encode CmdSetIntensity [word_of_int i])])
   \<and> (connected p \<longrightarrow>
      wire (snd (flushData p x)) = wire p @ [ControlWrite (spec_encode CmdFlushData [0x00])])
   \<and> (ErrorFlag (lastStatus (refreshed p env)) = 0 \<and> Status (lastStatus (refreshed p env)) = 0 \<longrightarrow>
      (\<exists>rest. wire (snd (TestPrintCard p env)) =
         wire (refreshed p env)
         @ ControlWrite (spec_encode CmdPrintRequest [0x0A, 0x00, 0x30, 0x00]) # rest))
   \<and> (1 \<le> length payload \<and> length payload \<le> 65535 \<longrightarrow>
      framed_status_reply (spec_encode CmdGetStatus payload)
      \<and> fst (parseStatusResponse p (spec_encode CmdGetStatus payload)) =
          (if 5 \<le> length payload then None
           else Some (ShortStatusPayload (length payload + 8)))
      \<and> uint (spec_encode c payload ! 4) OR push_bit 8 (uint (spec_encode c payload ! 5))
          = int (length payload)
      \<and> spec_encode c payload ! 2 = c
      \<and> take (length payload) (drop 6 (spec_encode c payload)) = payload)"
proof (intro conjI impI)
  show "wire (snd (UpdateStatus p x)) = wire p @ [ControlWrite (spec_encode CmdGetStatus [0x00])]"
    if "connected p"
    using that by (simp add: UpdateStatus_wire spec_encode_packets)
  show "wire (snd (setIntensity p i w)) =
        wire p @ [ControlWrite (spec_encode CmdSetIntensity [word_of_int i])]"
    if "connected p \<and> 0 \<le> i \<and> i \<le> 255"
    using that by (simp add: setIntensity_wire)
  show "wire (snd (flushData p x)) = wire p @ [ControlWrite (spec_encode CmdFlushData [0x00])]"
    if "connected p"
    using that by (simp add: flushData_wire spec_encode_packets)
  show "\<exists>rest. wire (snd (TestPrintCard p env)) =
         wire (refreshed p env)
         @ ControlWrite (spec_encode CmdPrintRequest [0x0A, 0x00, 0x30, 0x00]) # rest"
    if "ErrorFlag (lastStatus (refreshed p env)) = 0 \<and> Status (lastStatus (refreshed p env)) = 0"
    using that TestPrintCard_print_request_wire [of p env]
    by (simp add: spec_encode_packets)
next
  assume h: "1 \<le> length payload \<and> length payload \<le> 65535"
  then have a: "1 \<le> length payload" and b: "length payload \<le> 65535" by simp_all
  show "framed_status_reply (spec_encode CmdGetStatus payload)"
    by (rule spec_encode_status_framed [OF a b])
  show "fst (parseStatusResponse p (spec_encode CmdGetStatus payload)) =
          (if 5 \<le> length payload then None
           else Some (ShortStatusPayload (length payload + 8)))"
    by (rule parse_spec_encode [OF a b])
  show "uint (spec_encode c payload ! 4) OR push_bit 8 (uint (spec_encode c payload ! 5))
          = int (length payload)"
    by (simp only: payloadLength_eq spec_encode_declared_length [OF b])
  show "spec_encode c payload ! 2 = c"
    by (rule spec_encode_fields)
  show "take (length payload) (drop 6 (spec_encode c payload)) = payload"
    by (rule spec_encode_fields)
qed

text \<open>The connected session of the examples, intensity 93, and the one-byte payload 00.\<close>

theorem packets_follow_the_specified_layout_witness:
  "connected connected_session
   \<and> wire (snd (UpdateStatus connected_session silent)) =
       wire connected_session @ [ControlWrite (spec_encode CmdGetStatus [0x00])]
   \<and> wire (snd (setIntensity connected_session 93 False)) =
       wire connected_session @ [ControlWrite (spec_encode CmdSetIntensity [0x5D])]
   \<and> wire (snd (flushData connected_session silent)) =
       wire connected_session @ [ControlWrite (spec_encode CmdFlushData [0x00])]
   \<and> ErrorFlag (lastStatus (refreshed connected_session
         (silent_print\<lparr>status_x := answering status_reply_ok\<rparr>))) = 0
   \<and> Status (lastStatus (refreshed connected_session
         (silent_print\<lparr>status_x := answering status_reply_ok\<rparr>))) = 0
   \<and> (\<exists>rest. wire (snd (TestPrintCard connected_session
                   (silent_print\<lparr>status_x := answering status_reply_ok\<rparr>))) =
         wire (refreshed connected_session (silent_print\<lparr>status_x := answering status_reply_ok\<rparr>))
         @ ControlWrite (spec_encode CmdPrintRequest [0x0A, 0x00, 0x30, 0x00]) # rest)
   \<and> 1 \<le> length [0x00 :: byte] \<and> length [0x00 :: byte] \<le> 65535
   \<and> framed_status_reply (spec_encode CmdGetStatus [0x00])
   \<and> fst (parseStatusResponse connected_session (spec_encode CmdGetStatus [0x00]))
       = Some (ShortStatusPayload 9)
   \<and> spec_encode CmdGetStatus [0x00] ! 2 = CmdGetStatus
   \<and> take 1 (drop 6 (spec_encode CmdGetStatus [0x00])) = [0x00]"
proof -
  let ?e = "silent_print\<lparr>status_x := answering status_reply_ok\<rparr>"
  note c = connected_session_fields(1,2)
  have l: "13 \<le> length status_reply_ok" by (simp add: framed_ok)
  have f: "ErrorFlag (lastStatus (refreshed connected_session ?e)) = 0"
      "Status (lastStatus (refreshed connected_session ?e)) = 0"
    using refreshed_status_reply(1,2) [OF c status_x_update framed_ok(1) l]
    by (simp_all add: status_reply_ok_def)
  note t = packets_follow_the_specified_layout
    [of connected_session silent 93 False ?e "[0x00]" CmdGetStatus]
  have i: "(word_of_int 93 :: byte) = 0x5D" by simp
  show ?thesis
    using t c(1) f by (simp add: i)
qed

text \<open>
  The packet of an empty payload has 8 bytes, and the parser rejects every buffer shorter
  than 9 bytes.
\<close>

theorem empty_payload_frame_is_rejected:
  "spec_encode CmdGetStatus [] = [0x22, 0x21, 0xA1, 0x00, 0x00, 0x00, 0x00, 0xFF]
   \<and> parseStatusResponse connected_session (spec_encode CmdGetStatus [])
       = (Some (FrameTooShort 8), connected_session)"
  by (simp add: spec_encode_def parseStatusResponse_def calculateCRC8_def consts_defs)

lemma transferImageData_late_notification:
  assumes "connected p" "notifications p = []" "during_transfer env = [b]"
    "\<not> write_err (flush_x env)"
  shows "logged (snd (transferImageData p imageData env)) =
     logged p
     @ map ChunkWriteFailed
         (filter (chunk_err env) [0..<chunk_count (max (length imageData) 4320) 0])
     @ (if 3 \<le> length b \<and> b ! 2 = 0xAA then [] else [UnexpectedCompletionResponse b])"
proof -
  let ?q = "foldl deliver
              (sendChunks 0
                 (if length imageData < MinImageBytes
                  then imageData @ replicate (MinImageBytes - length imageData) 0x00
                  else imageData)
                 (chunk_err env) p)
              (during_transfer env)"
  have c: "connected ?q" using assms(1) by (simp add: foldl_deliver_fields sendChunks_fields)
  have n: "notifications ?q = [b]"
    using assms(2,3) by (simp add: sendChunks_fields deliver_def)
  show ?thesis
    unfolding transferImageData_logged flushData_result [OF c assms(4)] n
    by simp
qed


section \<open>Stale notifications\<close>

lemma late_notification_flow:
  "fst (TestPrintCard connected_session
          (silent_print\<lparr>status_x := answering status_reply_ok,
                        print_x := answering print_accepted,
                        transfer := \<lparr>chunk_err = (\<lambda>k. False),
                                      during_transfer = [status_reply_ok],
                                      flush_x = answering print_complete\<rparr>\<rparr>)) = None
   \<and> logged (snd (TestPrintCard connected_session
          (silent_print\<lparr>status_x := answering status_reply_ok,
                        print_x := answering print_accepted,
                        transfer := \<lparr>chunk_err = (\<lambda>k. False),
                                      during_transfer = [status_reply_ok],
                                      flush_x = answering print_complete\<rparr>\<rparr>)))
       = [UnexpectedCompletionResponse status_reply_ok]"
proof -
  let ?t = "\<lparr>chunk_err = (\<lambda>k. False), during_transfer = [status_reply_ok],
            flush_x = answering print_complete\<rparr>"
  let ?e = "silent_print\<lparr>status_x := answering status_reply_ok,
                        print_x := answering print_accepted, transfer := ?t\<rparr>"
  note c = connected_session_fields(1,2)
  have l: "13 \<le> length status_reply_ok" "status_reply_ok ! 12 = 0" "status_reply_ok ! 6 = 0"
    by (simp_all add: status_reply_ok_def)
  have k: "\<not> (3 \<le> length status_reply_ok \<and> status_reply_ok ! 2 = 0xAA)"
    by (simp add: status_reply_ok_def)
  have f: "TestPrintCard connected_session ?e =
      transferImageData
        (writeControl (refreshed connected_session ?e)
           [0x22, 0x21, 0xA9, 0x00, 0x04, 0x00, 0x0A, 0x00, 0x30, 0x00, 0x65, 0xFF])
        testImage ?t"
    and n: "notifications (refreshed connected_session ?e) = []"
    using print_accepted_flow [OF c _ framed_ok(1) l, of ?e]
    by (simp_all add: silent_print_fields)
  have g: "logged (snd (TestPrintCard connected_session ?e))
       = [UnexpectedCompletionResponse status_reply_ok]"
    unfolding f
    by (subst transferImageData_late_notification [where b = status_reply_ok])
      (simp_all add: writeControl_fields refreshed_fields c n connected_session_fields
        answering_fields k)
  show ?thesis
    using g by (simp add: f transferImageData_result)
qed

text \<open>
  C4. A stale notification can be taken as the reply to a new command. \<open>UpdateStatus\<close>
  discards one buffered notification only: with two buffered, the second (an old reply
  with error flag 1) is parsed as the answer to the new query, although a session with an
  empty mailbox would store error flag 0 from the reply that arrives. \<open>flushData\<close>
  discards nothing: with one status reply buffered it reports that reply as an unexpected
  completion response, although the print-complete notification arrives; the same
  happens inside \<open>TestPrintCard\<close> when a notification is delivered during the transfer.
\<close>

theorem stale_notification_taken_as_reply:
  "notifications (deliver (deliver connected_session status_reply_busy) status_reply_err)
     = [status_reply_busy, status_reply_err]
   \<and> fst (UpdateStatus (deliver (deliver connected_session status_reply_busy) status_reply_err)
            (answering status_reply_ok)) = None
   \<and> ErrorFlag (lastStatus (snd (UpdateStatus
            (deliver (deliver connected_session status_reply_busy) status_reply_err)
            (answering status_reply_ok)))) = 1
   \<and> ErrorFlag (lastStatus (snd (UpdateStatus connected_session (answering status_reply_ok)))) = 0
   \<and> notifications (deliver connected_session status_reply_ok) = [status_reply_ok]
   \<and> fst (flushData (deliver connected_session status_reply_ok) (answering print_complete))
       = Some (UnexpectedCompletionResponse status_reply_ok)
   \<and> fst (flushData connected_session (answering print_complete)) = None
   \<and> logged (snd (TestPrintCard connected_session
          (silent_print\<lparr>status_x := answering status_reply_ok,
                        print_x := answering print_accepted,
                        transfer := \<lparr>chunk_err = (\<lambda>k. False),
                                      during_transfer = [status_reply_ok],
                                      flush_x = answering print_complete\<rparr>\<rparr>)))
       = [UnexpectedCompletionResponse status_reply_ok]"
proof -
  let ?p = "deliver (deliver connected_session status_reply_busy) status_reply_err"
  note c = connected_session_fields(1,2)
  have n: "notifications ?p = [status_reply_busy, status_reply_err]"
    by (simp add: deliver_def c)
  have cp: "connected ?p" by (simp add: deliver_fields c)
  note u = UpdateStatus_stale [OF cp n answering_fields(1), of status_reply_ok]
  have l: "13 \<le> length status_reply_err" by (simp add: framed_err)
  note q = parse_framed(1) [OF framed_err(1) l, of ?p]
  have a: "fst (UpdateStatus ?p (answering status_reply_ok)) = None"
    using u(1) q by simp
  have b: "ErrorFlag (lastStatus (snd (UpdateStatus ?p (answering status_reply_ok)))) = 1"
    using u(2) q by (simp add: Let_def status_reply_err_def)
  have n1: "length (notifications connected_session) \<le> 1" by (simp add: c)
  have l': "13 \<le> length status_reply_ok" by (simp add: framed_ok)
  have d: "ErrorFlag (lastStatus (snd (UpdateStatus connected_session (answering status_reply_ok)))) = 0"
    using UpdateStatus_reply(2) [OF c(1) n1 answering_fields, of status_reply_ok]
      parse_framed(1) [OF framed_ok(1) l', of connected_session]
    by (simp add: Let_def status_reply_ok_def)
  have n2: "notifications (deliver connected_session status_reply_ok) = [status_reply_ok]"
    by (simp add: deliver_def c)
  have c2: "connected (deliver connected_session status_reply_ok)"
    by (simp add: deliver_fields c)
  have e: "fst (flushData (deliver connected_session status_reply_ok) (answering print_complete))
       = Some (UnexpectedCompletionResponse status_reply_ok)"
    unfolding flushData_result [OF c2 answering_fields(1)] n2
    by (simp add: status_reply_ok_def)
  have f: "fst (flushData connected_session (answering print_complete)) = None"
    unfolding flushData_result [OF c(1) answering_fields(1)] c(2)
    by (simp add: answering_fields print_complete_def)
  show ?thesis
    using n a b d n2 e f late_notification_flow by simp
qed

end
